theory Spec2Isabelle
  imports Complex_Main "HOL-Library.Sublist"
begin

section \<open>Training Neural Networks: the two notebooks\<close>

text \<open>
  The repository holds two Jupyter notebooks, \<^verbatim>\<open>Part 3 - Training Neural Networks
  (Exercises).ipynb\<close> and a second copy with the exercises solved (the file
  \<^verbatim>\<open>unnamed/part_000\<close>). Their code cells call PyTorch. PyTorch is not part of the
  repository, so every framework operation is a parameter of the model (the record
  \<open>env\<close> below); what is fixed here is what the cells themselves do: the order of the
  calls, the loops, the accumulator, the printing, and what happens when a call raises.
  Definitions that come from the Exercises notebook carry the suffix \<open>_ex\<close>; the ones
  without a suffix come from \<^verbatim>\<open>part_000\<close>.
\<close>

subsection \<open>Errors and logged execution\<close>

text \<open>
  A Python exception is a value of type \<open>error\<close>. \<open>FrameworkError n\<close> stands for whatever
  exception number \<open>n\<close> a framework call raises (a shape mismatch, for example);
  \<open>StopIteration\<close> is raised by \<^verbatim>\<open>next\<close> on an exhausted iterator,
  \<open>ZeroDivisionError\<close> by \<^verbatim>\<open>/\<close> with a zero divisor, \<open>IndexError\<close> by an index out of
  range, and \<open>ShapeError\<close> is the framework's complaint about a shape that does not fit
  the number of elements.
\<close>

datatype error = FrameworkError nat | ShapeError | IndexError | StopIteration | ZeroDivisionError

text \<open>
  A run of a piece of code is the log of the operations it performed, in order, each
  with the exception it raised (if any), together with the outcome: \<open>Inl e\<close> when the
  exception \<open>e\<close> left the code uncaught, \<open>Inr x\<close> when it completed with \<open>x\<close>.
\<close>

type_synonym ('c, 'a) run = "('c \<times> error option) list \<times> (error + 'a)"

definition ret :: "'a \<Rightarrow> ('c, 'a) run" where
  "ret x = ([], Inr x)"

definition raised :: "error + 'a \<Rightarrow> error option" where
  "raised r = (case r of Inl e \<Rightarrow> Some e | Inr _ \<Rightarrow> None)"

text \<open>One operation \<open>c\<close> whose result is \<open>r\<close>: it is logged, and \<open>r\<close> is the outcome.\<close>

definition call :: "'c \<Rightarrow> error + 'a \<Rightarrow> ('c, 'a) run" where
  "call c r = ([(c, raised r)], r)"

text \<open>
  Statement sequencing. Python runs the next statement only when the previous one
  completed; an exception skips the rest.
\<close>

definition bind :: "('c, 'a) run \<Rightarrow> ('a \<Rightarrow> ('c, 'b) run) \<Rightarrow> ('c, 'b) run" where
  "bind m f =
     (case m of
        (tr, Inl e) \<Rightarrow> (tr, Inl e)
      | (tr, Inr a) \<Rightarrow> (case f a of (tr', r) \<Rightarrow> (tr @ tr', r)))"

text \<open>
  \<^verbatim>\<open>for x in xs: body\<close> over a finite sequence, the loop's variables threaded
  through as \<open>acc\<close>. The bodies of the notebooks contain no \<^verbatim>\<open>break\<close>, so the loop
  leaves early only through an exception.
\<close>

fun for_each :: "('b \<Rightarrow> 'a \<Rightarrow> ('c, 'a) run) \<Rightarrow> 'b list \<Rightarrow> 'a \<Rightarrow> ('c, 'a) run" where
  "for_each body [] acc = ret acc"
| "for_each body (x # xs) acc = bind (body x acc) (for_each body xs)"

subsection \<open>The framework, as the notebooks use it\<close>

datatype layer = Linear nat nat | ReLU | LogSoftmax nat

datatype loss_fn = CrossEntropyLoss | NLLLoss

text \<open>
  The operations of PyTorch and of Python's float arithmetic that the training cells
  apply. \<open>'m\<close> is a model with its parameters, \<open>'g\<close> the gradients of the parameters,
  \<open>'t\<close> a tensor and \<open>'v\<close> a Python number. Nothing is assumed of these functions.
\<close>

record ('m, 'g, 't, 'v) env =
  Sequential :: "layer list \<Rightarrow> 'm"
  view_rows :: "'t \<Rightarrow> error + 't"
  resize_inplace :: "nat list \<Rightarrow> 't \<Rightarrow> error + 't"
  model_call :: "'m \<Rightarrow> 't \<Rightarrow> error + 't"
  criterion_call :: "loss_fn \<Rightarrow> 't \<Rightarrow> 't \<Rightarrow> error + 't"
  autograd :: "'t \<Rightarrow> error + 'g"
  sgd_update :: "rat \<Rightarrow> 'm \<Rightarrow> 'g \<Rightarrow> error + 'm"
  item :: "'t \<Rightarrow> 'v"
  float_zero :: "'v"
  float_add :: "'v \<Rightarrow> 'v \<Rightarrow> 'v"
  float_div :: "'v \<Rightarrow> nat \<Rightarrow> 'v"

text \<open>
  \<^item> \<open>Sequential ls\<close>: \<^verbatim>\<open>nn.Sequential(...)\<close>, a new model with freshly initialised
    parameters;
  \<^item> \<open>view_rows images\<close>: \<^verbatim>\<open>images.view(images.shape[0], -1)\<close>;
  \<^item> \<open>resize_inplace [64, 784] images\<close>: \<^verbatim>\<open>images.resize_(64, 784)\<close>;
  \<^item> \<open>model_call m images\<close>: \<^verbatim>\<open>model(images)\<close>;
  \<^item> \<open>criterion_call c output labels\<close>: \<^verbatim>\<open>criterion(output, labels)\<close>;
  \<^item> \<open>autograd loss\<close>: the gradients of the parameters that \<^verbatim>\<open>loss.backward()\<close>
    computes from the graph of \<open>loss\<close>;
  \<^item> \<open>sgd_update lr m g\<close>: the model after one update of \<^verbatim>\<open>optim.SGD\<close> with
    learning rate \<open>lr\<close> and gradients \<open>g\<close>;
  \<^item> \<open>item loss\<close>: \<^verbatim>\<open>loss.item()\<close>;
  \<^item> \<open>float_zero\<close>, \<open>float_add\<close>, \<open>float_div\<close>: Python's \<^verbatim>\<open>0\<close>, \<^verbatim>\<open>+\<close> and
    \<^verbatim>\<open>/\<close> on the numbers \<^verbatim>\<open>running_loss\<close> holds (the divisor is an \<^verbatim>\<open>int\<close>).

  The operations with a result of type \<open>error + _\<close> may raise. Building the model, the
  loss and the optimizer, \<^verbatim>\<open>optimizer.zero_grad()\<close>, \<^verbatim>\<open>loss.item()\<close>,
  \<^verbatim>\<open>len(trainloader)\<close> and \<^verbatim>\<open>print\<close> are taken not to.
\<close>

text \<open>
  The notebook's variables \<^verbatim>\<open>model\<close>, \<^verbatim>\<open>criterion\<close> and \<^verbatim>\<open>optimizer\<close>. The
  parameters' \<^verbatim>\<open>.grad\<close> buffers are \<open>grad\<close>: \<open>None\<close> until the first backward pass,
  as the notebook prints it before \<^verbatim>\<open>loss.backward()\<close>. The optimizer is plain SGD
  and is known by its learning rate.
\<close>

record ('m, 'g) notebook =
  model :: "'m"
  grad :: "'g option"
  criterion :: "loss_fn"
  optimizer :: "rat"

text \<open>
  The gradient buffers, as the notebook describes them (\<^verbatim>\<open># Clear the gradients, do
  this because gradients are accumulated\<close>): \<^verbatim>\<open>optimizer.zero_grad()\<close> sets existing
  buffers to zero, \<^verbatim>\<open>loss.backward()\<close> adds the gradients of \<open>loss\<close> to the buffers
  (creating them when there are none), and \<^verbatim>\<open>optimizer.step()\<close> updates the
  parameters from the buffers (and does nothing when there are none).
\<close>

definition zero_grad :: "('m, 'g::monoid_add) notebook \<Rightarrow> ('m, 'g) notebook" where
  "zero_grad nb = nb\<lparr>grad := map_option (\<lambda>_. 0) (grad nb)\<rparr>"

definition backward ::
  "('m, 'g::monoid_add, 't, 'v) env \<Rightarrow> 't \<Rightarrow> ('m, 'g) notebook \<Rightarrow> error + ('m, 'g) notebook" where
  "backward env loss nb =
     (case autograd env loss of
        Inl e \<Rightarrow> Inl e
      | Inr g \<Rightarrow> Inr (nb\<lparr>grad := Some (case grad nb of None \<Rightarrow> g | Some a \<Rightarrow> a + g)\<rparr>))"

definition step ::
  "('m, 'g, 't, 'v) env \<Rightarrow> ('m, 'g) notebook \<Rightarrow> error + ('m, 'g) notebook" where
  "step env nb =
     (case grad nb of
        None \<Rightarrow> Inr nb
      | Some g \<Rightarrow>
          (case sgd_update env (optimizer nb) (model nb) g of
             Inl e \<Rightarrow> Inl e
           | Inr m \<Rightarrow> Inr (nb\<lparr>model := m\<rparr>)))"

text \<open>
  The data loader: \<open>batches k\<close> are the (images, labels) pairs that the \<open>k\<close>-th
  iterator over \<^verbatim>\<open>trainloader\<close> yields (shuffling makes them differ from one
  iterator to the next), and \<open>len\<close> is \<^verbatim>\<open>len(trainloader)\<close>. An iterator yields
  finitely many batches, and taking the next one from it does not raise.
\<close>

record 't trainloader =
  batches :: "nat \<Rightarrow> ('t \<times> 't) list"
  len :: "nat"

text \<open>Python's \<^verbatim>\<open>running_loss/len(trainloader)\<close>.\<close>

definition truediv :: "('m, 'g, 't, 'v) env \<Rightarrow> 'v \<Rightarrow> nat \<Rightarrow> error + 'v" where
  "truediv env x n = (if n = 0 then Inl ZeroDivisionError else Inr (float_div env x n))"

subsection \<open>The operations a cell performs\<close>

datatype ('g, 't, 'v) op =
    NewSequential "layer list"
  | NewLoss loss_fn
  | NewSGD rat
  | NextIter
  | Next "'t \<times> 't"
  | View 't
  | Resize "nat list" 't
  | ZeroGrad
  | Forward 't
  | Criterion 't 't
  | Backward 't
  | Step "'g option"
  | Item 't
  | Len
  | Div 'v nat
  | PrintLoss 'v
  | PrintWeight
  | PrintGrad

text \<open>
  An operation is logged with its arguments; \<open>NextIter\<close> is
  \<^verbatim>\<open>next(iter(trainloader))\<close>, \<open>Next b\<close> is a \<^verbatim>\<open>for\<close> loop taking the batch \<open>b\<close> from
  its iterator, and \<open>Step g\<close> is \<^verbatim>\<open>optimizer.step()\<close> reading the buffers \<open>g\<close>.
\<close>

subsection \<open>The final training cell of \<^verbatim>\<open>part_000\<close>\<close>

text \<open>
  \<^verbatim>\<open>
  model = nn.Sequential(nn.Linear(784, 128),
                        nn.ReLU(),
                        nn.Linear(128, 64),
                        nn.ReLU(),
                        nn.Linear(64, 10),
                        nn.LogSoftmax(dim=1))

  criterion = nn.NLLLoss()
  optimizer = optim.SGD(model.parameters(), lr=0.003)

  epochs = 5
  for e in range(epochs):
      running_loss = 0
      for images, labels in trainloader:
          # Flatten MNIST images into a 784 long vector
          images = images.view(images.shape[0], -1)

          # TODO: Training pass
          optimizer.zero_grad()

          output = model(images)
          loss = criterion(output, labels)
          loss.backward()
          optimizer.step()

          running_loss += loss.item()
      else:
          print(f"Training loss: {running_loss/len(trainloader)}")
  \<close>
\<close>

definition layers :: "layer list" where
  "layers = [Linear 784 128, ReLU, Linear 128 64, ReLU, Linear 64 10, LogSoftmax 1]"

definition lr :: rat where
  "lr = 3 / 1000"

definition epochs :: nat where
  "epochs = 5"

text \<open>The body of the inner loop for one batch.\<close>

definition training_pass ::
  "('m, 'g::monoid_add, 't, 'v) env \<Rightarrow> 't \<times> 't \<Rightarrow> ('m, 'g) notebook \<times> 'v \<Rightarrow>
     (('g, 't, 'v) op, ('m, 'g) notebook \<times> 'v) run" where
  "training_pass env b acc =
     (case b of (images, labels) \<Rightarrow>
      case acc of (nb, running_loss) \<Rightarrow>
        bind (call (Next (images, labels)) (Inr ())) (\<lambda>_.
        bind (call (View images) (view_rows env images)) (\<lambda>images.
        bind (call ZeroGrad (Inr (zero_grad nb))) (\<lambda>nb.
        bind (call (Forward images) (model_call env (model nb) images)) (\<lambda>output.
        bind (call (Criterion output labels) (criterion_call env (criterion nb) output labels)) (\<lambda>loss.
        bind (call (Backward loss) (backward env loss nb)) (\<lambda>nb.
        bind (call (Step (grad nb)) (step env nb)) (\<lambda>nb.
        bind (call (Item loss) (Inr (item env loss))) (\<lambda>x.
        ret (nb, float_add env running_loss x))))))))))"

text \<open>
  The body of the outer loop: one epoch. The \<^verbatim>\<open>else\<close> branch of the inner
  \<^verbatim>\<open>for\<close> runs when the loop has gone through all its batches.
\<close>

definition epoch ::
  "('m, 'g::monoid_add, 't, 'v) env \<Rightarrow> 't trainloader \<Rightarrow> nat \<Rightarrow> ('m, 'g) notebook \<Rightarrow>
     (('g, 't, 'v) op, ('m, 'g) notebook) run" where
  "epoch env trainloader e nb =
     bind (for_each (training_pass env) (batches trainloader e) (nb, float_zero env)) (\<lambda>acc.
       case acc of (nb, running_loss) \<Rightarrow>
         bind (call Len (Inr (len trainloader))) (\<lambda>n.
         bind (call (Div running_loss n) (truediv env running_loss n)) (\<lambda>v.
         bind (call (PrintLoss v) (Inr ())) (\<lambda>_.
         ret nb))))"

definition training_cell ::
  "('m, 'g::monoid_add, 't, 'v) env \<Rightarrow> 't trainloader \<Rightarrow>
     (('g, 't, 'v) op, ('m, 'g) notebook) run" where
  "training_cell env trainloader =
     bind (call (NewSequential layers) (Inr (Sequential env layers))) (\<lambda>m.
     bind (call (NewLoss NLLLoss) (Inr NLLLoss)) (\<lambda>c.
     bind (call (NewSGD lr) (Inr lr)) (\<lambda>opt.
     for_each (epoch env trainloader) [0..<epochs]
       \<lparr>model = m, grad = None, criterion = c, optimizer = opt\<rparr>)))"

subsection \<open>The final training cell of the Exercises notebook\<close>

text \<open>
  \<^verbatim>\<open>
  ## Your solution here

  model = nn.Sequential(nn.Linear(784, 128),
                        nn.ReLU(),
                        nn.Linear(128, 64),
                        nn.ReLU(),
                        nn.Linear(64, 10),
                        nn.LogSoftmax(dim=1))

  criterion = nn.NLLLoss()
  optimizer = optim.SGD(model.parameters(), lr=0.003)

  epochs = 5
  for e in range(epochs):
      running_loss = 0
      for images, labels in trainloader:
          # Flatten MNIST images into a 784 long vector
          images = images.view(images.shape[0], -1)

          # TODO: Training pass
          optimizer.zero_grad()
          output = model(images)
          loss = criterion(output, labels)
          loss.backward()
          optimizer.step()

          running_loss += loss.item()
      else:
          print(f"Training loss: {running_loss/len(trainloader)}")
  \<close>
\<close>

definition layers_ex :: "layer list" where
  "layers_ex = [Linear 784 128, ReLU, Linear 128 64, ReLU, Linear 64 10, LogSoftmax 1]"

definition lr_ex :: rat where
  "lr_ex = 3 / 1000"

definition epochs_ex :: nat where
  "epochs_ex = 5"

definition training_pass_ex ::
  "('m, 'g::monoid_add, 't, 'v) env \<Rightarrow> 't \<times> 't \<Rightarrow> ('m, 'g) notebook \<times> 'v \<Rightarrow>
     (('g, 't, 'v) op, ('m, 'g) notebook \<times> 'v) run" where
  "training_pass_ex env b acc =
     (case b of (images, labels) \<Rightarrow>
      case acc of (nb, running_loss) \<Rightarrow>
        bind (call (Next (images, labels)) (Inr ())) (\<lambda>_.
        bind (call (View images) (view_rows env images)) (\<lambda>images.
        bind (call ZeroGrad (Inr (zero_grad nb))) (\<lambda>nb.
        bind (call (Forward images) (model_call env (model nb) images)) (\<lambda>output.
        bind (call (Criterion output labels) (criterion_call env (criterion nb) output labels)) (\<lambda>loss.
        bind (call (Backward loss) (backward env loss nb)) (\<lambda>nb.
        bind (call (Step (grad nb)) (step env nb)) (\<lambda>nb.
        bind (call (Item loss) (Inr (item env loss))) (\<lambda>x.
        ret (nb, float_add env running_loss x))))))))))"

definition epoch_ex ::
  "('m, 'g::monoid_add, 't, 'v) env \<Rightarrow> 't trainloader \<Rightarrow> nat \<Rightarrow> ('m, 'g) notebook \<Rightarrow>
     (('g, 't, 'v) op, ('m, 'g) notebook) run" where
  "epoch_ex env trainloader e nb =
     bind (for_each (training_pass_ex env) (batches trainloader e) (nb, float_zero env)) (\<lambda>acc.
       case acc of (nb, running_loss) \<Rightarrow>
         bind (call Len (Inr (len trainloader))) (\<lambda>n.
         bind (call (Div running_loss n) (truediv env running_loss n)) (\<lambda>v.
         bind (call (PrintLoss v) (Inr ())) (\<lambda>_.
         ret nb))))"

definition training_cell_ex ::
  "('m, 'g::monoid_add, 't, 'v) env \<Rightarrow> 't trainloader \<Rightarrow>
     (('g, 't, 'v) op, ('m, 'g) notebook) run" where
  "training_cell_ex env trainloader =
     bind (call (NewSequential layers_ex) (Inr (Sequential env layers_ex))) (\<lambda>m.
     bind (call (NewLoss NLLLoss) (Inr NLLLoss)) (\<lambda>c.
     bind (call (NewSGD lr_ex) (Inr lr_ex)) (\<lambda>opt.
     for_each (epoch_ex env trainloader) [0..<epochs_ex]
       \<lparr>model = m, grad = None, criterion = c, optimizer = opt\<rparr>)))"

subsection \<open>The single training step shown before the loop\<close>

text \<open>
  Two cells, the same in both notebooks, run on the \<^verbatim>\<open>model\<close>, \<^verbatim>\<open>criterion\<close>
  and \<^verbatim>\<open>optimizer\<close> that earlier cells left (the state \<open>nb\<close>):
  \<^verbatim>\<open>
  print('Initial weights - ', model[0].weight)

  images, labels = next(iter(trainloader))
  images.resize_(64, 784)

  # Clear the gradients, do this because gradients are accumulated
  optimizer.zero_grad()

  # Forward pass, then backward pass, then update weights
  output = model(images)
  loss = criterion(output, labels)
  loss.backward()
  print('Gradient -', model[0].weight.grad)
  \<close>
  and
  \<^verbatim>\<open>
  # Take an update step and few the new weights
  optimizer.step()
  print('Updated weights - ', model[0].weight)
  \<close>
  \<open>k\<close> says which iterator over the loader \<^verbatim>\<open>iter(trainloader)\<close> creates.
\<close>

definition next_iter :: "'b list \<Rightarrow> error + 'b" where
  "next_iter it = (case it of [] \<Rightarrow> Inl StopIteration | b # _ \<Rightarrow> Inr b)"

definition single_step ::
  "('m, 'g::monoid_add, 't, 'v) env \<Rightarrow> 't trainloader \<Rightarrow> nat \<Rightarrow> ('m, 'g) notebook \<Rightarrow>
     (('g, 't, 'v) op, ('m, 'g) notebook) run" where
  "single_step env trainloader k nb =
     bind (call PrintWeight (Inr ())) (\<lambda>_.
     bind (call NextIter (next_iter (batches trainloader k))) (\<lambda>b.
       case b of (images, labels) \<Rightarrow>
         bind (call (Resize [64, 784] images) (resize_inplace env [64, 784] images)) (\<lambda>images.
         bind (call ZeroGrad (Inr (zero_grad nb))) (\<lambda>nb.
         bind (call (Forward images) (model_call env (model nb) images)) (\<lambda>output.
         bind (call (Criterion output labels) (criterion_call env (criterion nb) output labels)) (\<lambda>loss.
         bind (call (Backward loss) (backward env loss nb)) (\<lambda>nb.
         bind (call PrintGrad (Inr ())) (\<lambda>_.
         ret nb))))))))"

definition update_step ::
  "('m, 'g, 't, 'v) env \<Rightarrow> ('m, 'g) notebook \<Rightarrow> (('g, 't, 'v) op, ('m, 'g) notebook) run" where
  "update_step env nb =
     bind (call (Step (grad nb)) (step env nb)) (\<lambda>nb.
     bind (call PrintWeight (Inr ())) (\<lambda>_.
     ret nb))"

text \<open>The two cells run one after the other.\<close>

definition single_step_demo ::
  "('m, 'g::monoid_add, 't, 'v) env \<Rightarrow> 't trainloader \<Rightarrow> nat \<Rightarrow> ('m, 'g) notebook \<Rightarrow>
     (('g, 't, 'v) op, ('m, 'g) notebook) run" where
  "single_step_demo env trainloader k nb =
     bind (single_step env trainloader k nb) (update_step env)"

subsection \<open>Reading a log\<close>

definition printed :: "(('g, 't, 'v) op \<times> error option) list \<Rightarrow> 'v list" where
  "printed tr = concat (map (\<lambda>x. case fst x of PrintLoss v \<Rightarrow> [v] | _ \<Rightarrow> []) tr)"

definition items ::
  "('m, 'g, 't, 'v) env \<Rightarrow> (('g, 't, 'v) op \<times> error option) list \<Rightarrow> 'v list" where
  "items env tr = concat (map (\<lambda>x. case fst x of Item l \<Rightarrow> [item env l] | _ \<Rightarrow> []) tr)"

definition fetched :: "(('g, 't, 'v) op \<times> error option) list \<Rightarrow> ('t \<times> 't) list" where
  "fetched tr = concat (map (\<lambda>x. case fst x of Next b \<Rightarrow> [b] | _ \<Rightarrow> []) tr)"

subsection \<open>Checks on a log\<close>

text \<open>
  A run leaves its exception uncaught: when the outcome is the exception \<open>e\<close>, the last
  operation logged is the one that raised \<open>e\<close> and no operation before it raised; when
  the code completed, no operation raised.
\<close>

definition uncaught :: "('c, 'a) run \<Rightarrow> bool" where
  "uncaught r =
     (case snd r of
        Inr _ \<Rightarrow> list_all (\<lambda>x. snd x = None) (fst r)
      | Inl e \<Rightarrow> fst r \<noteq> [] \<and> snd (last (fst r)) = Some e \<and>
                 list_all (\<lambda>x. snd x = None) (butlast (fst r)))"

text \<open>
  The order of the four operations of a training pass. \<open>Idle\<close> is the phase between two
  passes; each of the four operations is accepted only in the phase the previous one
  leaves, and every other operation leaves the phase as it is.
\<close>

datatype phase = Idle | AfterForward | AfterLoss | AfterBackward

fun order_step :: "phase \<Rightarrow> ('g, 't, 'v) op \<Rightarrow> phase option" where
  "order_step p (Forward _) = (if p = Idle then Some AfterForward else None)"
| "order_step p (Criterion _ _) = (if p = AfterForward then Some AfterLoss else None)"
| "order_step p (Backward _) = (if p = AfterLoss then Some AfterBackward else None)"
| "order_step p (Step _) = (if p = AfterBackward then Some Idle else None)"
| "order_step p _ = Some p"

fun in_order :: "phase \<Rightarrow> ('g, 't, 'v) op list \<Rightarrow> phase option" where
  "in_order p [] = Some p"
| "in_order p (c # cs) = (case order_step p c of None \<Rightarrow> None | Some q \<Rightarrow> in_order q cs)"

definition pass_order :: "(('g, 't, 'v) op, 'a) run \<Rightarrow> bool" where
  "pass_order r = (in_order Idle (map fst (fst r)) \<noteq> None)"

text \<open>
  What the gradient buffers hold. \<open>Stale\<close>: whatever earlier passes left; \<open>Cleared\<close>:
  zeroed by \<^verbatim>\<open>optimizer.zero_grad()\<close> and not written since; \<open>Fresh l\<close>: the gradients of
  the loss \<open>l\<close> and nothing else. A backward pass is accepted on cleared buffers only, and
  an optimizer step only when the buffers it reads are exactly the gradients of the loss
  of the backward pass just before it.
\<close>

datatype 't buffers = Stale | Cleared | Fresh 't

fun grad_step ::
  "('m, 'g, 't, 'v) env \<Rightarrow> 't buffers \<Rightarrow> ('g, 't, 'v) op \<Rightarrow> 't buffers option" where
  "grad_step env s ZeroGrad = Some Cleared"
| "grad_step env s (Backward l) = (case s of Cleared \<Rightarrow> Some (Fresh l) | _ \<Rightarrow> None)"
| "grad_step env s (Step g) =
     (case s of
        Fresh l \<Rightarrow>
          (case autograd env l of
             Inr g' \<Rightarrow> (if g = Some g' then Some Stale else None)
           | Inl _ \<Rightarrow> None)
      | _ \<Rightarrow> None)"
| "grad_step env s _ = Some s"

fun grad_protocol ::
  "('m, 'g, 't, 'v) env \<Rightarrow> 't buffers \<Rightarrow> ('g, 't, 'v) op list \<Rightarrow> 't buffers option" where
  "grad_protocol env s [] = Some s"
| "grad_protocol env s (c # cs) =
     (case grad_step env s c of None \<Rightarrow> None | Some s' \<Rightarrow> grad_protocol env s' cs)"

definition fresh_gradients ::
  "('m, 'g, 't, 'v) env \<Rightarrow> (('g, 't, 'v) op, 'a) run \<Rightarrow> bool" where
  "fresh_gradients env r = (grad_protocol env Stale (map fst (fst r)) \<noteq> None)"

subsection \<open>What each operation calls\<close>

datatype api =
    transforms_Compose | transforms_ToTensor | transforms_Normalize
  | datasets_MNIST | DataLoader | DataLoader_iter | DataLoader_len
  | nn_Sequential | nn_Linear | nn_ReLU | nn_LogSoftmax
  | nn_CrossEntropyLoss | nn_NLLLoss
  | Module_call | Module_parameters | Module_weight | Loss_call
  | optim_SGD | Optimizer_zero_grad | Optimizer_step
  | torch_randn | requires_grad | torch_no_grad | torch_exp
  | Tensor_backward | Tensor_grad | Tensor_grad_fn
  | Tensor_view | Tensor_resize | Tensor_shape | Tensor_getitem | Tensor_item
  | Tensor_pow | Tensor_mean | Tensor_div
  | py_print | py_range | py_truediv
  | helper_view_classify | matplotlib_inline

fun api_of :: "('g, 't, 'v) op \<Rightarrow> api" where
  "api_of (NewSequential _) = nn_Sequential"
| "api_of (NewLoss CrossEntropyLoss) = nn_CrossEntropyLoss"
| "api_of (NewLoss NLLLoss) = nn_NLLLoss"
| "api_of (NewSGD _) = optim_SGD"
| "api_of NextIter = DataLoader_iter"
| "api_of (Next _) = DataLoader_iter"
| "api_of (View _) = Tensor_view"
| "api_of (Resize _ _) = Tensor_resize"
| "api_of ZeroGrad = Optimizer_zero_grad"
| "api_of (Forward _) = Module_call"
| "api_of (Criterion _ _) = Loss_call"
| "api_of (Backward _) = Tensor_backward"
| "api_of (Step _) = Optimizer_step"
| "api_of (Item _) = Tensor_item"
| "api_of Len = DataLoader_len"
| "api_of (Div _ _) = py_truediv"
| "api_of (PrintLoss _) = py_print"
| "api_of PrintWeight = py_print"
| "api_of PrintGrad = py_print"

definition apis :: "(('g, 't, 'v) op \<times> error option) list \<Rightarrow> api list" where
  "apis tr = map (\<lambda>x. api_of (fst x)) tr"

text \<open>The operations of one training pass, and of the \<^verbatim>\<open>else\<close> branch after the batches.\<close>

definition pass_apis :: "api list" where
  "pass_apis = [DataLoader_iter, Tensor_view, Optimizer_zero_grad, Module_call, Loss_call,
     Tensor_backward, Optimizer_step, Tensor_item]"

definition else_apis :: "api list" where
  "else_apis = [DataLoader_len, py_truediv, py_print]"


subsection \<open>The calls of every code cell\<close>

datatype source = Part_000 | Exercises

text \<open>
  The code cells of \<^verbatim>\<open>part_000\<close> in the order of the file, each as the calls it makes
  in the order Python evaluates them (a call inside a loop is listed once).
  \<open>requires_grad\<close> is the keyword argument of \<^verbatim>\<open>torch.randn\<close>, \<open>Module_weight\<close> is
  \<^verbatim>\<open>model[0].weight\<close>, \<open>Tensor_getitem\<close> is \<^verbatim>\<open>images[0]\<close>, \<open>py_truediv\<close> is the
  division of two Python numbers and \<open>matplotlib_inline\<close> the notebook magic
  \<^verbatim>\<open>%matplotlib inline\<close>. The last cell of the file is empty.
\<close>

definition code_cells :: "api list list" where
  "code_cells =
    [[transforms_ToTensor, transforms_Normalize, transforms_Compose, datasets_MNIST, DataLoader],
     [nn_Linear, nn_ReLU, nn_Linear, nn_ReLU, nn_Linear, nn_Sequential, nn_CrossEntropyLoss,
      DataLoader_iter, Tensor_shape, Tensor_view, Module_call, Loss_call, py_print],
     [nn_Linear, nn_ReLU, nn_Linear, nn_ReLU, nn_Linear, nn_LogSoftmax, nn_Sequential,
      nn_NLLLoss, DataLoader_iter, Tensor_shape, Tensor_view, Module_call, Loss_call, py_print],
     [torch_randn, requires_grad, py_print],
     [Tensor_pow, py_print],
     [Tensor_grad_fn, py_print],
     [Tensor_mean, py_print],
     [Tensor_grad, py_print],
     [Tensor_backward, Tensor_grad, py_print, Tensor_div, py_print],
     [nn_Linear, nn_ReLU, nn_Linear, nn_ReLU, nn_Linear, nn_LogSoftmax, nn_Sequential,
      nn_NLLLoss, DataLoader_iter, Tensor_shape, Tensor_view, Module_call, Loss_call],
     [Module_weight, Tensor_grad, py_print, Tensor_backward, Module_weight, Tensor_grad,
      py_print],
     [Module_parameters, optim_SGD],
     [Module_weight, py_print, DataLoader_iter, Tensor_resize, Optimizer_zero_grad,
      Module_call, Loss_call, Tensor_backward, Module_weight, Tensor_grad, py_print],
     [Optimizer_step, Module_weight, py_print],
     [nn_Linear, nn_ReLU, nn_Linear, nn_ReLU, nn_Linear, nn_LogSoftmax, nn_Sequential,
      nn_NLLLoss, Module_parameters, optim_SGD, py_range, DataLoader_iter, Tensor_shape,
      Tensor_view, Optimizer_zero_grad, Module_call, Loss_call, Tensor_backward,
      Optimizer_step, Tensor_item, DataLoader_len, py_truediv, py_print],
     [matplotlib_inline, DataLoader_iter, Tensor_getitem, Tensor_view, torch_no_grad,
      Module_call, torch_exp, Tensor_view, helper_view_classify],
     []]"

text \<open>
  The code cells of the Exercises notebook. Its code differs from \<^verbatim>\<open>part_000\<close> in
  comments, blank lines and the name of one variable (\<^verbatim>\<open>logits\<close> for \<^verbatim>\<open>logps\<close>),
  and it has no empty cell at the end.
\<close>

definition code_cells_ex :: "api list list" where
  "code_cells_ex =
    [[transforms_ToTensor, transforms_Normalize, transforms_Compose, datasets_MNIST, DataLoader],
     [nn_Linear, nn_ReLU, nn_Linear, nn_ReLU, nn_Linear, nn_Sequential, nn_CrossEntropyLoss,
      DataLoader_iter, Tensor_shape, Tensor_view, Module_call, Loss_call, py_print],
     [nn_Linear, nn_ReLU, nn_Linear, nn_ReLU, nn_Linear, nn_LogSoftmax, nn_Sequential,
      nn_NLLLoss, DataLoader_iter, Tensor_shape, Tensor_view, Module_call, Loss_call, py_print],
     [torch_randn, requires_grad, py_print],
     [Tensor_pow, py_print],
     [Tensor_grad_fn, py_print],
     [Tensor_mean, py_print],
     [Tensor_grad, py_print],
     [Tensor_backward, Tensor_grad, py_print, Tensor_div, py_print],
     [nn_Linear, nn_ReLU, nn_Linear, nn_ReLU, nn_Linear, nn_LogSoftmax, nn_Sequential,
      nn_NLLLoss, DataLoader_iter, Tensor_shape, Tensor_view, Module_call, Loss_call],
     [Module_weight, Tensor_grad, py_print, Tensor_backward, Module_weight, Tensor_grad,
      py_print],
     [Module_parameters, optim_SGD],
     [Module_weight, py_print, DataLoader_iter, Tensor_resize, Optimizer_zero_grad,
      Module_call, Loss_call, Tensor_backward, Module_weight, Tensor_grad, py_print],
     [Optimizer_step, Module_weight, py_print],
     [nn_Linear, nn_ReLU, nn_Linear, nn_ReLU, nn_Linear, nn_LogSoftmax, nn_Sequential,
      nn_NLLLoss, Module_parameters, optim_SGD, py_range, DataLoader_iter, Tensor_shape,
      Tensor_view, Optimizer_zero_grad, Module_call, Loss_call, Tensor_backward,
      Optimizer_step, Tensor_item, DataLoader_len, py_truediv, py_print],
     [matplotlib_inline, DataLoader_iter, Tensor_getitem, Tensor_view, torch_no_grad,
      Module_call, torch_exp, Tensor_view, helper_view_classify]]"

fun cells :: "source \<Rightarrow> api list list" where
  "cells Part_000 = code_cells"
| "cells Exercises = code_cells_ex"

definition calls :: "source \<Rightarrow> api list" where
  "calls f = concat (cells f)"



text \<open>Which calls go to the framework (PyTorch and torchvision).\<close>

fun framework :: "api \<Rightarrow> bool" where
  "framework py_print = False"
| "framework py_range = False"
| "framework py_truediv = False"
| "framework helper_view_classify = False"
| "framework matplotlib_inline = False"
| "framework _ = True"

text \<open>
  The surface the specification lists: tensor construction, automatic-differentiation
  flags, a sequential-model container, linear and activation layers, log-softmax and
  negative-log-likelihood loss functions, a stochastic-gradient-descent optimizer, and a
  dataset/loader utility. Each call is put under the entry it can be read into: calling
  a model, its parameters and weights under the container, applying a criterion under
  the loss functions, \<^verbatim>\<open>backward\<close>, \<^verbatim>\<open>grad\<close> and \<^verbatim>\<open>grad_fn\<close> under automatic
  differentiation, the transforms and the iteration under the dataset/loader utility.
\<close>

datatype surface =
    tensor_construction | autodiff_flags | sequential_container | layers_linear_activation
  | log_softmax_nll_loss | sgd_optimizer | dataset_loader

fun listed :: "api \<Rightarrow> surface option" where
  "listed torch_randn = Some tensor_construction"
| "listed requires_grad = Some autodiff_flags"
| "listed torch_no_grad = Some autodiff_flags"
| "listed Tensor_backward = Some autodiff_flags"
| "listed Tensor_grad = Some autodiff_flags"
| "listed Tensor_grad_fn = Some autodiff_flags"
| "listed nn_Sequential = Some sequential_container"
| "listed Module_call = Some sequential_container"
| "listed Module_parameters = Some sequential_container"
| "listed Module_weight = Some sequential_container"
| "listed nn_Linear = Some layers_linear_activation"
| "listed nn_ReLU = Some layers_linear_activation"
| "listed nn_LogSoftmax = Some log_softmax_nll_loss"
| "listed nn_NLLLoss = Some log_softmax_nll_loss"
| "listed Loss_call = Some log_softmax_nll_loss"
| "listed optim_SGD = Some sgd_optimizer"
| "listed Optimizer_zero_grad = Some sgd_optimizer"
| "listed Optimizer_step = Some sgd_optimizer"
| "listed transforms_Compose = Some dataset_loader"
| "listed transforms_ToTensor = Some dataset_loader"
| "listed transforms_Normalize = Some dataset_loader"
| "listed datasets_MNIST = Some dataset_loader"
| "listed DataLoader = Some dataset_loader"
| "listed DataLoader_iter = Some dataset_loader"
| "listed DataLoader_len = Some dataset_loader"
| "listed _ = None"

subsection \<open>Tensors, \<^verbatim>\<open>view\<close> and \<^verbatim>\<open>resize_\<close>\<close>

text \<open>
  To say what the two ways of flattening do to a batch, a tensor is its shape and its
  elements in row-major order. \<^verbatim>\<open>view\<close> keeps the elements and changes the shape, and
  raises when the new shape does not hold exactly the elements there are;
  \<^verbatim>\<open>t.view(t.shape[0], -1)\<close> takes the first dimension from the tensor and computes
  the second. \<^verbatim>\<open>resize_\<close> never raises: it keeps as many elements as the new shape
  holds, and when the new shape holds more it takes the rest from memory that was never
  written, whose content is \<open>junk\<close> (\<open>junk i\<close> for the element at position \<open>i\<close>).
\<close>

record 'a tensor =
  shape :: "nat list"
  storage :: "'a list"

definition numel :: "'a tensor \<Rightarrow> nat" where
  "numel t = length (storage t)"

definition view :: "nat list \<Rightarrow> 'a tensor \<Rightarrow> error + 'a tensor" where
  "view shp t = (if prod_list shp = numel t then Inr (t\<lparr>shape := shp\<rparr>) else Inl ShapeError)"

definition view_batch :: "'a tensor \<Rightarrow> error + 'a tensor" where
  "view_batch t =
     (case shape t of
        [] \<Rightarrow> Inl IndexError
      | n # _ \<Rightarrow>
          if n = 0 \<or> numel t mod n \<noteq> 0 then Inl ShapeError
          else view [n, numel t div n] t)"

definition resize :: "(nat \<Rightarrow> 'a) \<Rightarrow> nat list \<Rightarrow> 'a tensor \<Rightarrow> 'a tensor" where
  "resize junk shp t =
     \<lparr>shape = shp,
      storage = take (prod_list shp) (storage t) @ map junk [numel t..<prod_list shp]\<rparr>"

text \<open>A framework whose tensors are these, every other operation as in \<open>env\<close>.\<close>

definition with_tensors ::
  "(nat \<Rightarrow> 'a) \<Rightarrow> ('m, 'g, 'a tensor, 'v) env \<Rightarrow> ('m, 'g, 'a tensor, 'v) env" where
  "with_tensors junk env =
     env\<lparr>view_rows := view_batch, resize_inplace := (\<lambda>shp t. Inr (resize junk shp t))\<rparr>"

text \<open>The tensors the model was called on.\<close>

definition forwarded :: "(('g, 't, 'v) op \<times> error option) list \<Rightarrow> 't list" where
  "forwarded tr = concat (map (\<lambda>x. case fst x of Forward t \<Rightarrow> [t] | _ \<Rightarrow> []) tr)"

text \<open>
  How each cell that flattens images does it, by the number of the code cell:
  \<^verbatim>\<open>images.view(images.shape[0], -1)\<close> on a batch (cells 2, 3, 10 and 15),
  \<^verbatim>\<open>images.resize_(64, 784)\<close> on a batch (cell 13), and \<^verbatim>\<open>images[0].view(1, 784)\<close> on
  the first image of a batch (cell 16, the last code cell, which also gives the image
  its shape back with \<^verbatim>\<open>img.view(1, 28, 28)\<close>). The list is the same for both
  notebooks.
\<close>

datatype flattening = View_rows | Resize_to "nat list" | View_to "nat list"

definition flattenings :: "(nat \<times> flattening) list" where
  "flattenings =
     [(2, View_rows), (3, View_rows), (10, View_rows), (13, Resize_to [64, 784]),
      (15, View_rows), (16, View_to [1, 784])]"

subsection \<open>The losses of an epoch and their mean\<close>

text \<open>
  The loss of a batch under the state \<open>nb\<close> of the notebook: what the criterion returns
  for the output of the model on the flattened images of the batch and the labels of the
  batch.
\<close>

definition batch_loss ::
  "('m, 'g, 't, 'v) env \<Rightarrow> ('m, 'g) notebook \<Rightarrow> 't \<times> 't \<Rightarrow> error + 't" where
  "batch_loss env nb b =
     (case b of (images, labels) \<Rightarrow>
        (case view_rows env images of
           Inl e \<Rightarrow> Inl e
         | Inr flat \<Rightarrow>
             (case model_call env (model nb) flat of
                Inl e \<Rightarrow> Inl e
              | Inr output \<Rightarrow> criterion_call env (criterion nb) output labels)))"

text \<open>
  The state of the notebook after the update for a loss: the buffers cleared, the
  gradients of the loss added to them, and one step of the optimizer.
\<close>

definition updated ::
  "('m, 'g::monoid_add, 't, 'v) env \<Rightarrow> ('m, 'g) notebook \<Rightarrow> 't \<Rightarrow> error + ('m, 'g) notebook" where
  "updated env nb loss =
     (case backward env loss (zero_grad nb) of
        Inl e \<Rightarrow> Inl e
      | Inr nb' \<Rightarrow> step env nb')"

text \<open>
  The losses of the batches \<open>bs\<close>, in order, each under the state that the updates for
  the batches before it have left; the list ends where the framework raises. The state
  after all of \<open>bs\<close> is \<open>updated_through\<close>.
\<close>

fun epoch_losses ::
  "('m, 'g::monoid_add, 't, 'v) env \<Rightarrow> ('t \<times> 't) list \<Rightarrow> ('m, 'g) notebook \<Rightarrow> 't list" where
  "epoch_losses env [] nb = []"
| "epoch_losses env (b # bs) nb =
     (case batch_loss env nb b of
        Inl _ \<Rightarrow> []
      | Inr loss \<Rightarrow>
          (case updated env nb loss of
             Inl _ \<Rightarrow> []
           | Inr nb' \<Rightarrow> loss # epoch_losses env bs nb'))"

fun updated_through ::
  "('m, 'g::monoid_add, 't, 'v) env \<Rightarrow> ('t \<times> 't) list \<Rightarrow> ('m, 'g) notebook \<Rightarrow>
     error + ('m, 'g) notebook" where
  "updated_through env [] nb = Inr nb"
| "updated_through env (b # bs) nb =
     (case batch_loss env nb b of
        Inl e \<Rightarrow> Inl e
      | Inr loss \<Rightarrow>
          (case updated env nb loss of
             Inl e \<Rightarrow> Inl e
           | Inr nb' \<Rightarrow> updated_through env bs nb'))"

text \<open>
  The sum of \<^verbatim>\<open>loss.item()\<close> of the losses of epoch \<open>e\<close>, added up from \<^verbatim>\<open>0\<close> in the
  order of the batches, divided by \<^verbatim>\<open>len(trainloader)\<close>.
\<close>

definition mean_loss ::
  "('m, 'g::monoid_add, 't, 'v) env \<Rightarrow> 't trainloader \<Rightarrow> nat \<Rightarrow> ('m, 'g) notebook \<Rightarrow> 'v" where
  "mean_loss env trainloader e nb =
     float_div env
       (foldl (float_add env) (float_zero env)
          (map (item env) (epoch_losses env (batches trainloader e) nb)))
       (len trainloader)"

text \<open>The means of the epochs \<open>es\<close>, each epoch starting in the state the one before left.\<close>

fun epoch_means ::
  "('m, 'g::monoid_add, 't, 'v) env \<Rightarrow> 't trainloader \<Rightarrow> nat list \<Rightarrow> ('m, 'g) notebook \<Rightarrow>
     'v list" where
  "epoch_means env trainloader [] nb = []"
| "epoch_means env trainloader (e # es) nb =
     (case updated_through env (batches trainloader e) nb of
        Inl _ \<Rightarrow> []
      | Inr nb' \<Rightarrow> mean_loss env trainloader e nb # epoch_means env trainloader es nb')"

subsection \<open>The two notebooks side by side\<close>

fun training_pass_in ::
  "source \<Rightarrow> ('m, 'g::monoid_add, 't, 'v) env \<Rightarrow> 't \<times> 't \<Rightarrow> ('m, 'g) notebook \<times> 'v \<Rightarrow>
     (('g, 't, 'v) op, ('m, 'g) notebook \<times> 'v) run" where
  "training_pass_in Part_000 = training_pass"
| "training_pass_in Exercises = training_pass_ex"

fun epoch_in ::
  "source \<Rightarrow> ('m, 'g::monoid_add, 't, 'v) env \<Rightarrow> 't trainloader \<Rightarrow> nat \<Rightarrow> ('m, 'g) notebook \<Rightarrow>
     (('g, 't, 'v) op, ('m, 'g) notebook) run" where
  "epoch_in Part_000 = epoch"
| "epoch_in Exercises = epoch_ex"

fun training_cell_in ::
  "source \<Rightarrow> ('m, 'g::monoid_add, 't, 'v) env \<Rightarrow> 't trainloader \<Rightarrow>
     (('g, 't, 'v) op, ('m, 'g) notebook) run" where
  "training_cell_in Part_000 = training_cell"
| "training_cell_in Exercises = training_cell_ex"

subsection \<open>A small framework to run the cells on\<close>

text \<open>
  A framework of integers: a model is a number, the network returns its input, the loss
  of an output is the output itself, and the criterion raises on a negative label. The
  gradient of a loss is the loss, and an update subtracts the gradient from the model.
  Numbers are exact rationals.
\<close>

definition toy :: "(int, int, int, rat) env" where
  "toy = \<lparr>Sequential = (\<lambda>_. 0), view_rows = Inr, resize_inplace = (\<lambda>_. Inr),
     model_call = (\<lambda>m x. Inr x),
     criterion_call = (\<lambda>c out y. if y < 0 then Inl (FrameworkError 1) else Inr out),
     autograd = Inr, sgd_update = (\<lambda>lr m g. Inr (m - g)), item = of_int,
     float_zero = 0, float_add = (+), float_div = (\<lambda>x n. x / of_nat n)\<rparr>"

text \<open>Two batches in every epoch, with losses 1 and 3.\<close>

definition two_batches :: "int trainloader" where
  "two_batches = \<lparr>batches = (\<lambda>k. [(1, 0), (3, 0)]), len = 2\<rparr>"


text \<open>The second batch has a label the criterion rejects.\<close>

definition bad_batch :: "int trainloader" where
  "bad_batch = \<lparr>batches = (\<lambda>k. [(1, 0), (3, - 1)]), len = 2\<rparr>"

definition nb0 :: "(int, int) notebook" where
  "nb0 = \<lparr>model = 0, grad = Some 5, criterion = NLLLoss, optimizer = 1 / 100\<rparr>"

text \<open>
  A framework in which the model, the output and the loss differ: the network adds the
  model to its input, and the loss is three times the output plus the label.
\<close>

definition toy_affine :: "(int, int, int, rat) env" where
  "toy_affine = \<lparr>Sequential = (\<lambda>_. 0), view_rows = Inr, resize_inplace = (\<lambda>_. Inr),
     model_call = (\<lambda>m x. Inr (m + x)),
     criterion_call = (\<lambda>c out y. if y < 0 then Inl (FrameworkError 1) else Inr (3 * out + y)),
     autograd = Inr, sgd_update = (\<lambda>lr m g. Inr (m - g)), item = of_int,
     float_zero = 0, float_add = (+), float_div = (\<lambda>x n. x / of_nat n)\<rparr>"

text \<open>Two batches in every epoch, with labels 1 and 2.\<close>

definition two_labelled :: "int trainloader" where
  "two_labelled = \<lparr>batches = (\<lambda>k. [(1, 1), (3, 2)]), len = 2\<rparr>"

text \<open>The same framework on tensors of integers; the loss is a tensor with no elements.\<close>

definition toy_tensors :: "(int, int, int tensor, rat) env" where
  "toy_tensors = \<lparr>Sequential = (\<lambda>_. 0), view_rows = Inr, resize_inplace = (\<lambda>_. Inr),
     model_call = (\<lambda>m x. Inr x),
     criterion_call = (\<lambda>c out y. Inr \<lparr>shape = [], storage = []\<rparr>),
     autograd = (\<lambda>l. Inr 0), sgd_update = (\<lambda>lr m g. Inr (m - g)), item = (\<lambda>l. 0),
     float_zero = 0, float_add = (+), float_div = (\<lambda>x n. x / of_nat n)\<rparr>"

text \<open>
  The last batch of an epoch over the 60000 images in batches of 64: 32 images of 28 by
  28 pixels, here all 0, with their 32 labels.
\<close>

definition last_batch :: "int tensor \<times> int tensor" where
  "last_batch =
     (\<lparr>shape = [32, 1, 28, 28], storage = replicate 25088 0\<rparr>,
      \<lparr>shape = [32], storage = replicate 32 0\<rparr>)"

definition last_batch_first :: "int tensor trainloader" where
  "last_batch_first = \<lparr>batches = (\<lambda>k. [last_batch]), len = 1\<rparr>"

definition nb1 :: "(int, int) notebook" where
  "nb1 = \<lparr>model = 0, grad = None, criterion = NLLLoss, optimizer = 1 / 100\<rparr>"

subsection \<open>The output recorded under the training cells\<close>

text \<open>
  Both notebooks are stored with the output of one run. Under the training cell of
  \<^verbatim>\<open>part_000\<close>:
  \<^verbatim>\<open>
  Training loss: 1.9532823571518285
  Training loss: 0.878406940524512
  Training loss: 0.5222327950031265
  Training loss: 0.42386719128533973
  Training loss: 0.37874325701613415
  \<close>
  and under the one of the Exercises notebook:
  \<^verbatim>\<open>
  Training loss: 1.9123346843699147
  Training loss: 0.8706545072323733
  Training loss: 0.5380584762803019
  Training loss: 0.4390944388788392
  Training loss: 0.39253350822274874
  \<close>
  The decimal numerals are taken as the rationals they denote.
\<close>

fun recorded_losses :: "source \<Rightarrow> rat list" where
  "recorded_losses Part_000 =
     [19532823571518285 / 10 ^ 16, 878406940524512 / 10 ^ 15, 5222327950031265 / 10 ^ 16,
      42386719128533973 / 10 ^ 17, 37874325701613415 / 10 ^ 17]"
| "recorded_losses Exercises =
     [19123346843699147 / 10 ^ 16, 8706545072323733 / 10 ^ 16, 5380584762803019 / 10 ^ 16,
      4390944388788392 / 10 ^ 16, 39253350822274874 / 10 ^ 17]"

section \<open>Properties\<close>

subsection \<open>Sequencing and loops\<close>


lemma bind_Inr: "bind m f = (tr, Inr y) \<longleftrightarrow> (\<exists>t1 a t2. m = (t1, Inr a) \<and> f a = (t2, Inr y) \<and> tr = t1 @ t2)"
  by (cases m; cases "snd m") (auto simp: bind_def split: prod.splits)

lemma bind_Inl: "bind m f = (tr, Inl e) \<longleftrightarrow> (m = (tr, Inl e) \<or> (\<exists>t1 a t2. m = (t1, Inr a) \<and> f a = (t2, Inl e) \<and> tr = t1 @ t2))"
  by (cases m; cases "snd m") (auto simp: bind_def split: prod.splits)

lemma call_eq: "call c r = (tr, x) \<longleftrightarrow> tr = [(c, raised r)] \<and> x = r"
  by (auto simp: call_def)

lemma ret_eq: "ret a = (tr, x) \<longleftrightarrow> tr = [] \<and> x = Inr a"
  by (auto simp: ret_def)

lemma fst_bind: "fst (bind m f) = (case snd m of Inl e \<Rightarrow> fst m | Inr a \<Rightarrow> fst m @ fst (f a))"
  by (simp add: bind_def split: prod.splits sum.splits)

lemma snd_bind: "snd (bind m f) = (case snd m of Inl e \<Rightarrow> Inl e | Inr a \<Rightarrow> snd (f a))"
  by (simp add: bind_def split: prod.splits sum.splits)

lemma for_each_ok:
  assumes "for_each body xs acc = (tr, Inr acc')"
    and "\<And>x a t a'. body x a = (t, Inr a') \<Longrightarrow> R t"
    and "R []" and "\<And>a b. R a \<Longrightarrow> R b \<Longrightarrow> R (a @ b)"
  shows "R tr"
  using assms(1)
proof (induction xs arbitrary: acc tr)
  case Nil
  then show ?case using assms(3) by (simp add: ret_eq)
next
  case (Cons x xs)
  then show ?case using assms(2,4) by (auto simp: bind_Inr)
qed

lemma for_each_fail:
  assumes "for_each body xs acc = (tr, Inl e)"
    and "\<And>x a t a'. body x a = (t, Inr a') \<Longrightarrow> R t"
    and "R []" and "\<And>a b. R a \<Longrightarrow> R b \<Longrightarrow> R (a @ b)"
  shows "\<exists>t1 t2 x a. tr = t1 @ t2 \<and> R t1 \<and> body x a = (t2, Inl e)"
  using assms(1)
proof (induction xs arbitrary: acc tr)
  case Nil
  then show ?case by (simp add: ret_eq)
next
  case (Cons x xs)
  from Cons.prems consider
    (now) "body x acc = (tr, Inl e)"
    | (later) t1 a t2 where "body x acc = (t1, Inr a)" "for_each body xs a = (t2, Inl e)" "tr = t1 @ t2"
    by (auto simp: bind_Inl)
  then show ?case
  proof cases
    case now
    have "tr = [] @ tr" by simp
    then show ?thesis using assms(3) now by blast
  next
    case later
    from Cons.IH[OF later(2)] obtain u1 u2 y b where
      u: "t2 = u1 @ u2" "R u1" "body y b = (u2, Inl e)" by blast
    have "R (t1 @ u1)" using assms(2)[OF later(1)] u(2) assms(4) by blast
    moreover have "tr = (t1 @ u1) @ u2" using later(3) u(1) by simp
    ultimately show ?thesis using u(3) by blast
  qed
qed

lemma training_pass_ex_eq: "training_pass_ex = training_pass"
  by (intro ext) (simp add: training_pass_ex_def training_pass_def)

lemma epoch_ex_eq: "epoch_ex = epoch"
  by (intro ext) (simp add: epoch_ex_def epoch_def training_pass_ex_eq)

lemma training_cell_ex_eq: "training_cell_ex = training_cell"
  by (intro ext) (simp add: training_cell_ex_def training_cell_def epoch_ex_eq layers_ex_def layers_def lr_ex_def lr_def epochs_ex_def epochs_def)


lemma training_pass_in_eq: "training_pass_in f = training_pass"
  by (cases f) (simp_all add: training_pass_ex_eq)

lemma epoch_in_eq: "epoch_in f = epoch"
  by (cases f) (simp_all add: epoch_ex_eq)

lemma training_cell_in_eq: "training_cell_in f = training_cell"
  by (cases f) (simp_all add: training_cell_ex_eq)

lemma run_eq: "r = (fst r, snd r)"
  by simp

subsection \<open>What an epoch logs\<close>

lemma printed_append: "printed (a @ b) = printed a @ printed b"
  by (simp add: printed_def)

lemma items_append: "items env (a @ b) = items env a @ items env b"
  by (simp add: items_def)

lemma fetched_append: "fetched (a @ b) = fetched a @ fetched b"
  by (simp add: fetched_def)

lemma training_pass_ok:
  assumes "training_pass env b (nb, rl) = (tr, Inr (nb', rl'))"
  shows "rl' = foldl (float_add env) rl (items env tr) \<and> length (items env tr) = 1 \<and>
         printed tr = [] \<and> fetched tr = [b]"
  using assms
  by (cases b)
     (auto simp: training_pass_def bind_Inr call_eq ret_eq printed_def items_def fetched_def)

lemma training_pass_fail:
  assumes "training_pass env b acc = (tr, Inl e)"
  shows "printed tr = []"
  using assms
  by (cases b; cases acc)
     (auto simp: training_pass_def bind_Inr bind_Inl call_eq ret_eq printed_def)

lemma batches_ok:
  "for_each (training_pass env) bs (nb, rl) = (tr, Inr (nb', rl')) \<Longrightarrow>
   rl' = foldl (float_add env) rl (items env tr) \<and> length (items env tr) = length bs \<and>
   printed tr = [] \<and> fetched tr = bs"
proof (induction bs arbitrary: nb rl tr)
  case Nil
  then show ?case by (simp add: ret_eq printed_def items_def fetched_def)
next
  case (Cons b bs)
  then show ?case
    by (auto simp: bind_Inr items_append printed_append fetched_append dest!: training_pass_ok)
qed

lemma batches_fail:
  assumes "for_each (training_pass env) bs acc = (tr, Inl e)"
  shows "printed tr = []"
proof -
  have ok: "\<And>x a t a'. training_pass env x a = (t, Inr a') \<Longrightarrow> printed t = []"
    using training_pass_ok by (metis surj_pair)
  from for_each_fail[OF assms, where R = "\<lambda>t. printed t = []"] ok
  obtain t1 t2 x a where "tr = t1 @ t2" "printed t1 = []" "training_pass env x a = (t2, Inl e)"
    by (auto simp: printed_append printed_def)
  then show ?thesis using training_pass_fail by (simp add: printed_append)
qed

lemma epoch_ok:
  assumes "epoch env trainloader e nb = (tr, Inr nb')"
  shows "\<exists>tr0 rl v. tr = tr0 @ [(Len, None), (Div rl (len trainloader), None), (PrintLoss v, None)] \<and>
      printed tr0 = [] \<and> fetched tr0 = batches trainloader e \<and>
      length (items env tr0) = length (batches trainloader e) \<and>
      rl = foldl (float_add env) (float_zero env) (items env tr0) \<and>
      len trainloader \<noteq> 0 \<and> v = float_div env rl (len trainloader)"
  using assms
  by (auto simp: epoch_def bind_Inr call_eq ret_eq truediv_def raised_def
           split: prod.splits if_splits dest!: batches_ok)

lemma epoch_fail:
  assumes "epoch env trainloader e nb = (tr, Inl err)"
  shows "printed tr = []"
  using assms
  by (auto simp: epoch_def bind_Inr bind_Inl call_eq ret_eq truediv_def raised_def printed_append
           split: prod.splits if_splits dest!: batches_ok batches_fail)
     (simp_all add: printed_def)

lemma epoch_ok_printed:
  assumes "epoch env trainloader e nb = (tr, Inr nb')"
  shows "printed tr =
           [float_div env (foldl (float_add env) (float_zero env) (items env tr)) (len trainloader)] \<and>
         length (items env tr) = length (batches trainloader e) \<and>
         fetched tr = batches trainloader e \<and>
         (\<exists>v. last tr = (PrintLoss v, None))"
  using epoch_ok[OF assms]
  by (auto simp: printed_append items_append fetched_append) (simp_all add: printed_def items_def fetched_def)

lemma epochs_ok:
  "for_each (epoch env trainloader) es nb = (tr, Inr nb') \<Longrightarrow>
   length (printed tr) = length es \<and> fetched tr = concat (map (batches trainloader) es)"
proof (induction es arbitrary: nb tr)
  case Nil
  then show ?case by (simp add: ret_eq printed_def fetched_def)
next
  case (Cons e es)
  then show ?case
    by (auto simp: bind_Inr printed_append fetched_append dest!: epoch_ok_printed)
qed

lemma training_cell_ok:
  assumes "training_cell env trainloader = (tr, Inr nb')"
  shows "length (printed tr) = epochs \<and>
         fetched tr = concat (map (batches trainloader) [0..<epochs])"
  using assms
  by (auto simp: training_cell_def bind_Inr call_eq ret_eq printed_append fetched_append
           dest!: epochs_ok)
     (simp_all add: printed_def fetched_def)

lemma call_Inr: "call c r = (tr, Inr a) \<longleftrightarrow> tr = [(c, None)] \<and> r = Inr a"
  by (auto simp: call_def raised_def)

lemma training_pass_loss:
  assumes "training_pass env b (nb, rl) = (tr, Inr (nb', rl'))"
  shows "\<exists>loss. batch_loss env nb b = Inr loss \<and> updated env nb loss = Inr nb' \<and>
           rl' = float_add env rl (item env loss) \<and> items env tr = [item env loss]"
  using assms
  by (cases b)
     (auto simp: training_pass_def bind_Inr call_Inr ret_eq batch_loss_def updated_def items_def
        zero_grad_def)

lemma batches_loss:
  "for_each (training_pass env) bs (nb, rl) = (tr, Inr (nb', rl')) \<Longrightarrow>
   items env tr = map (item env) (epoch_losses env bs nb) \<and>
   length (epoch_losses env bs nb) = length bs \<and>
   updated_through env bs nb = Inr nb'"
proof (induction bs arbitrary: nb rl tr)
  case Nil
  then show ?case by (simp add: ret_eq items_def)
next
  case (Cons b bs)
  then show ?case
    by (auto simp: bind_Inr items_append dest!: training_pass_loss)
qed

lemma epoch_loss:
  assumes "epoch env trainloader e nb = (tr, Inr nb')"
  shows "printed tr = [mean_loss env trainloader e nb] \<and>
         items env tr = map (item env) (epoch_losses env (batches trainloader e) nb) \<and>
         length (epoch_losses env (batches trainloader e) nb) = length (batches trainloader e) \<and>
         updated_through env (batches trainloader e) nb = Inr nb' \<and>
         len trainloader \<noteq> 0"
proof -
  from assms obtain tr0 nb1 rl where
    b: "for_each (training_pass env) (batches trainloader e) (nb, float_zero env) = (tr0, Inr (nb1, rl))"
    and t: "tr = tr0 @ [(Len, None), (Div rl (len trainloader), None),
              (PrintLoss (float_div env rl (len trainloader)), None)]"
    and n: "nb1 = nb'" "len trainloader \<noteq> 0"
    by (auto simp: epoch_def bind_Inr call_eq ret_eq truediv_def raised_def
          split: prod.splits if_splits)
  from batches_ok[OF b] have r: "rl = foldl (float_add env) (float_zero env) (items env tr0)"
    and p: "printed tr0 = []" by simp_all
  have i: "items env tr = items env tr0" unfolding t by (simp add: items_append) (simp add: items_def)
  have pr: "printed tr = [float_div env rl (len trainloader)]"
    unfolding t by (simp add: printed_append p) (simp add: printed_def)
  from batches_loss[OF b] i r pr n show ?thesis by (simp add: mean_loss_def)
qed

lemma epochs_means:
  "for_each (epoch env trainloader) es nb = (tr, Inr nb') \<Longrightarrow>
   printed tr = epoch_means env trainloader es nb"
proof (induction es arbitrary: nb tr)
  case Nil
  then show ?case by (simp add: ret_eq printed_def)
next
  case (Cons e es)
  then show ?case
    by (auto simp: bind_Inr printed_append dest!: epoch_loss)
qed

lemma training_cell_means:
  assumes "training_cell env trainloader = (tr, Inr nb')"
  shows "printed tr = epoch_means env trainloader [0..<epochs]
           \<lparr>model = Sequential env layers, grad = None, criterion = NLLLoss, optimizer = lr\<rparr>"
  using assms
  by (auto simp: training_cell_def bind_Inr call_eq ret_eq printed_append dest!: epochs_means)
     (simp_all add: printed_def)

lemma apis_append: "apis (a @ b) = apis a @ apis b"
  by (simp add: apis_def)

lemma training_pass_apis:
  assumes "training_pass env b acc = (tr, Inr acc')"
  shows "apis tr = pass_apis"
  using assms
  by (cases b; cases acc)
     (auto simp: training_pass_def bind_Inr call_eq ret_eq apis_def pass_apis_def)

lemma training_pass_fail_fetched:
  assumes "training_pass env b acc = (tr, Inl e)"
  shows "fetched tr = [b]"
  using assms
  by (cases b; cases acc)
     (auto simp: training_pass_def bind_Inr bind_Inl call_eq ret_eq fetched_def)

lemma batches_apis:
  "for_each (training_pass env) bs acc = (tr, Inr acc') \<Longrightarrow>
   apis tr = concat (replicate (length bs) pass_apis)"
proof (induction bs arbitrary: acc tr)
  case Nil
  then show ?case by (simp add: ret_eq apis_def)
next
  case (Cons b bs)
  then show ?case
    by (auto simp: bind_Inr apis_append dest!: training_pass_apis)
qed

lemma batches_fail_fetched:
  "for_each (training_pass env) bs acc = (tr, Inl e) \<Longrightarrow> prefix (fetched tr) bs"
proof (induction bs arbitrary: acc tr)
  case Nil
  then show ?case by (simp add: ret_eq)
next
  case (Cons b bs)
  from Cons.prems consider
    (now) "training_pass env b acc = (tr, Inl e)"
    | (later) t1 a t2 where "training_pass env b acc = (t1, Inr a)"
        "for_each (training_pass env) bs a = (t2, Inl e)" "tr = t1 @ t2"
    by (auto simp: bind_Inl)
  then show ?case
  proof cases
    case now
    then show ?thesis by (simp add: training_pass_fail_fetched)
  next
    case later
    have "fetched t1 = [b]" using later(1) training_pass_ok by (metis surj_pair)
    then show ?thesis using Cons.IH[OF later(2)] later(3) by (simp add: fetched_append)
  qed
qed

lemma epoch_apis:
  assumes "epoch env trainloader e nb = (tr, Inr nb')"
  shows "apis tr = concat (replicate (length (batches trainloader e)) pass_apis) @ else_apis"
  using assms
  by (auto simp: epoch_def bind_Inr call_eq ret_eq apis_append else_apis_def
           split: prod.splits dest!: batches_apis)
     (simp add: apis_def)

lemma epoch_fail_fetched:
  assumes "epoch env trainloader e nb = (tr, Inl err)"
  shows "prefix (fetched tr) (batches trainloader e)"
  using assms
  by (auto simp: epoch_def bind_Inr bind_Inl call_eq ret_eq fetched_append
           split: prod.splits dest!: batches_ok batches_fail_fetched)
     (simp_all add: fetched_def)

lemma epochs_apis:
  "for_each (epoch env trainloader) es nb = (tr, Inr nb') \<Longrightarrow>
   apis tr =
     concat (map (\<lambda>e. concat (replicate (length (batches trainloader e)) pass_apis) @ else_apis) es)"
proof (induction es arbitrary: nb tr)
  case Nil
  then show ?case by (simp add: ret_eq apis_def)
next
  case (Cons e es)
  then show ?case
    by (auto simp: bind_Inr apis_append dest!: epoch_apis)
qed

lemma training_cell_apis:
  assumes "training_cell env trainloader = (tr, Inr nb')"
  shows "apis tr =
     [nn_Sequential, nn_NLLLoss, optim_SGD] @
     concat (map (\<lambda>e. concat (replicate (length (batches trainloader e)) pass_apis) @ else_apis)
       [0..<epochs])"
  using assms
  by (auto simp: training_cell_def bind_Inr call_eq ret_eq apis_append dest!: epochs_apis)
     (simp add: apis_def)

lemma epochs_fail_fetched:
  "for_each (epoch env trainloader) es nb = (tr, Inl err) \<Longrightarrow>
   prefix (fetched tr) (concat (map (batches trainloader) es))"
proof (induction es arbitrary: nb tr)
  case Nil
  then show ?case by (simp add: ret_eq)
next
  case (Cons e es)
  from Cons.prems consider
    (now) "epoch env trainloader e nb = (tr, Inl err)"
    | (later) t1 a t2 where "epoch env trainloader e nb = (t1, Inr a)"
        "for_each (epoch env trainloader) es a = (t2, Inl err)" "tr = t1 @ t2"
    by (auto simp: bind_Inl)
  then show ?case
  proof cases
    case now
    then show ?thesis using epoch_fail_fetched by (fastforce intro: prefix_prefix)
  next
    case later
    have "fetched t1 = batches trainloader e" using epoch_ok_printed[OF later(1)] by simp
    then show ?thesis using Cons.IH[OF later(2)] later(3) by (simp add: fetched_append)
  qed
qed

lemma training_cell_fail_fetched:
  assumes "training_cell env trainloader = (tr, Inl err)"
  shows "prefix (fetched tr) (concat (map (batches trainloader) [0..<epochs]))"
  using assms
  by (auto simp: training_cell_def bind_Inr bind_Inl call_eq ret_eq fetched_append raised_def
           dest!: epochs_fail_fetched)
     (simp_all add: fetched_def)

lemma epochs_fail:
  "for_each (epoch env trainloader) es nb = (tr, Inl err) \<Longrightarrow> length (printed tr) < length es"
proof (induction es arbitrary: nb tr)
  case Nil
  then show ?case by (simp add: ret_eq)
next
  case (Cons e es)
  then show ?case
    by (auto simp: bind_Inl printed_append dest!: epoch_ok_printed epoch_fail)
qed

lemma training_cell_fail:
  assumes "training_cell env trainloader = (tr, Inl err)"
  shows "length (printed tr) < epochs"
  using assms
  by (auto simp: training_cell_def bind_Inr bind_Inl call_eq ret_eq printed_append raised_def
           dest!: epochs_fail)
     (simp_all add: printed_def)

subsection \<open>The printed training loss\<close>

text \<open>
  Claim C9. In both notebooks:

  \<^item> a training pass that runs to its end has added to \<^verbatim>\<open>running_loss\<close> the
    \<^verbatim>\<open>item()\<close> of the loss of its batch, the tensor the criterion returned for the
    model's output on the flattened images and the labels of the batch, and has left
    the model updated for that loss;
  \<^item> an epoch that runs to its end prints one value, as its last operation: the values
    \<^verbatim>\<open>loss.item()\<close> of the losses of its batches (one for every batch the loader
    yielded, each loss computed by the model as the batches before it have left it),
    added up from \<^verbatim>\<open>0\<close> in the order of the batches and divided by
    \<^verbatim>\<open>len(trainloader)\<close>, which is not 0;
  \<^item> an epoch that an exception interrupts prints nothing;
  \<^item> a training cell that runs to its end has printed once per epoch, five values in
    all: the means of the losses of the five epochs, starting from the new model.
\<close>

theorem training_loss_printed:
  "(case snd (training_pass_in f env b (nb, running_loss)) of
      Inl _ \<Rightarrow> printed (fst (training_pass_in f env b (nb, running_loss))) = []
    | Inr acc \<Rightarrow>
        (\<exists>loss. batch_loss env nb b = Inr loss \<and>
           updated env nb loss = Inr (fst acc) \<and>
           snd acc = float_add env running_loss (item env loss) \<and>
           items env (fst (training_pass_in f env b (nb, running_loss))) = [item env loss])) \<and>
   (case snd (epoch_in f env trainloader e nb) of
      Inl _ \<Rightarrow> printed (fst (epoch_in f env trainloader e nb)) = []
    | Inr nb' \<Rightarrow>
        printed (fst (epoch_in f env trainloader e nb)) = [mean_loss env trainloader e nb] \<and>
        items env (fst (epoch_in f env trainloader e nb)) =
          map (item env) (epoch_losses env (batches trainloader e) nb) \<and>
        length (epoch_losses env (batches trainloader e) nb) = length (batches trainloader e) \<and>
        updated_through env (batches trainloader e) nb = Inr nb' \<and>
        len trainloader \<noteq> 0 \<and>
        printed (fst (epoch_in f env trainloader e nb)) =
          [float_div env
             (foldl (float_add env) (float_zero env)
                (items env (fst (epoch_in f env trainloader e nb))))
             (len trainloader)] \<and>
        length (items env (fst (epoch_in f env trainloader e nb))) =
          length (batches trainloader e) \<and>
        (\<exists>v. last (fst (epoch_in f env trainloader e nb)) = (PrintLoss v, None))) \<and>
   (case snd (training_cell_in f env trainloader) of
      Inl _ \<Rightarrow> length (printed (fst (training_cell_in f env trainloader))) < 5
    | Inr _ \<Rightarrow>
        length (printed (fst (training_cell_in f env trainloader))) = 5 \<and>
        printed (fst (training_cell_in f env trainloader)) =
          epoch_means env trainloader [0, 1, 2, 3, 4]
            \<lparr>model = Sequential env [Linear 784 128, ReLU, Linear 128 64, ReLU, Linear 64 10,
                 LogSoftmax 1],
             grad = None, criterion = NLLLoss, optimizer = 3 / 1000\<rparr>)"
proof -
  let ?p = "training_pass env b (nb, running_loss)"
  have pass: "case snd ?p of
      Inl _ \<Rightarrow> printed (fst ?p) = []
    | Inr acc \<Rightarrow>
        (\<exists>loss. batch_loss env nb b = Inr loss \<and>
           updated env nb loss = Inr (fst acc) \<and>
           snd acc = float_add env running_loss (item env loss) \<and>
           items env (fst ?p) = [item env loss])"
  proof (cases "snd ?p")
    case (Inl err)
    then have "?p = (fst ?p, Inl err)" by (metis run_eq)
    from training_pass_fail[OF this] Inl show ?thesis by simp
  next
    case (Inr acc)
    then have "?p = (fst ?p, Inr (fst acc, snd acc))" by (metis run_eq prod.collapse)
    from training_pass_loss[OF this] Inr show ?thesis by simp
  qed
  let ?r = "epoch env trainloader e nb"
  have ep: "case snd ?r of
      Inl _ \<Rightarrow> printed (fst ?r) = []
    | Inr nb' \<Rightarrow>
        printed (fst ?r) = [mean_loss env trainloader e nb] \<and>
        items env (fst ?r) = map (item env) (epoch_losses env (batches trainloader e) nb) \<and>
        length (epoch_losses env (batches trainloader e) nb) = length (batches trainloader e) \<and>
        updated_through env (batches trainloader e) nb = Inr nb' \<and>
        len trainloader \<noteq> 0 \<and>
        printed (fst ?r) =
          [float_div env (foldl (float_add env) (float_zero env) (items env (fst ?r)))
             (len trainloader)] \<and>
        length (items env (fst ?r)) = length (batches trainloader e) \<and>
        (\<exists>v. last (fst ?r) = (PrintLoss v, None))"
  proof (cases "snd ?r")
    case (Inl err)
    then have "?r = (fst ?r, Inl err)" by (metis run_eq)
    from epoch_fail[OF this] Inl show ?thesis by simp
  next
    case (Inr nb')
    then have r: "?r = (fst ?r, Inr nb')" by (metis run_eq)
    from epoch_ok_printed[OF r] epoch_loss[OF r] Inr show ?thesis by simp
  qed
  let ?c = "training_cell env trainloader"
  have cell: "case snd ?c of
      Inl _ \<Rightarrow> length (printed (fst ?c)) < 5
    | Inr _ \<Rightarrow>
        length (printed (fst ?c)) = 5 \<and>
        printed (fst ?c) =
          epoch_means env trainloader [0, 1, 2, 3, 4]
            \<lparr>model = Sequential env [Linear 784 128, ReLU, Linear 128 64, ReLU, Linear 64 10,
                 LogSoftmax 1],
             grad = None, criterion = NLLLoss, optimizer = 3 / 1000\<rparr>"
  proof (cases "snd ?c")
    case (Inl err)
    then have "?c = (fst ?c, Inl err)" by (metis run_eq)
    from training_cell_fail[OF this] Inl show ?thesis by (simp add: epochs_def)
  next
    case (Inr nb')
    then have c: "?c = (fst ?c, Inr nb')" by (metis run_eq)
    have u: "[0..<epochs] = [0, 1, 2, 3, 4]" by (simp add: epochs_def upt_rec)
    from training_cell_ok[OF c] training_cell_means[OF c] Inr show ?thesis
      unfolding u by (simp add: epochs_def layers_def lr_def)
  qed
  from pass ep cell show ?thesis
    unfolding training_pass_in_eq epoch_in_eq training_cell_in_eq by (intro conjI)
qed

text \<open>
  On the framework in which the loss is three times the output plus the label: from the
  model 0 the losses of the batches are 4 and \<open>- 1\<close> (the outputs are 1 and \<open>- 1\<close>), and
  the epoch prints their mean 3/2; the five epochs of the cell print 3/2, 6, 24, 96 and
  384. On the small framework a rejected label prints nothing.
\<close>

theorem training_loss_printed_witness:
  "printed (fst (epoch_in Exercises toy_affine two_labelled 0 nb0)) = [3 / 2] \<and>
   items toy_affine (fst (epoch_in Exercises toy_affine two_labelled 0 nb0)) = [4, - 1] \<and>
   epoch_losses toy_affine (batches two_labelled 0) nb0 = [4, - 1] \<and>
   batch_loss toy_affine nb0 (1, 1) = Inr 4 \<and>
   snd (training_pass_in Part_000 toy_affine (1, 1) (nb0, 10)) =
     Inr (\<lparr>model = - 4, grad = Some 4, criterion = NLLLoss, optimizer = 1 / 100\<rparr>, 14) \<and>
   snd (epoch_in Part_000 toy bad_batch 0 nb0) = Inl (FrameworkError 1) \<and>
   printed (fst (epoch_in Part_000 toy bad_batch 0 nb0)) = [] \<and>
   length (printed (fst (training_cell_in Exercises toy two_batches))) = 5 \<and>
   printed (fst (training_cell_in Part_000 toy_affine two_labelled)) =
     [3 / 2, 6, 24, 96, 384]"
proof -
  have s0: "snd (training_pass_in Part_000 toy_affine (1, 1) (nb0, 10)) =
      Inr (\<lparr>model = - 4, grad = Some 4, criterion = NLLLoss, optimizer = 1 / 100\<rparr>, 14)"
    by code_simp
  have b0: "batch_loss toy_affine nb0 (1, 1) = Inr 4"
    by code_simp
  have "\<exists>loss. batch_loss toy_affine nb0 (1, 1) = Inr loss \<and>
      (14::rat) = float_add toy_affine 10 (item toy_affine loss)"
    using training_loss_printed[where f = Part_000 and env = toy_affine and b = "(1, 1)" and nb = nb0 and running_loss = 10] s0 by auto
  have s1: "snd (epoch_in Exercises toy_affine two_labelled 0 nb0) =
      Inr \<lparr>model = - 3, grad = Some (- 1), criterion = NLLLoss, optimizer = 1 / 100\<rparr>"
    by code_simp
  have l1: "epoch_losses toy_affine (batches two_labelled 0) nb0 = [4, - 1]"
    by code_simp
  have m1: "mean_loss toy_affine two_labelled 0 nb0 = 3 / 2"
    by code_simp
  have e1: "printed (fst (epoch_in Exercises toy_affine two_labelled 0 nb0)) =
        [mean_loss toy_affine two_labelled 0 nb0] \<and>
      items toy_affine (fst (epoch_in Exercises toy_affine two_labelled 0 nb0)) =
        map (item toy_affine) (epoch_losses toy_affine (batches two_labelled 0) nb0)"
    using training_loss_printed[where f = Exercises and env = toy_affine and trainloader = two_labelled and e = 0 and nb = nb0] s1 by simp
  have p1: "printed (fst (epoch_in Exercises toy_affine two_labelled 0 nb0)) = [3 / 2]"
    using e1 m1 by simp
  have i1: "items toy_affine (fst (epoch_in Exercises toy_affine two_labelled 0 nb0)) = [4, - 1]"
    using e1 unfolding l1 by (simp add: toy_affine_def)
  have s2: "snd (epoch_in Part_000 toy bad_batch 0 nb0) = Inl (FrameworkError 1)"
    by code_simp
  have p2: "printed (fst (epoch_in Part_000 toy bad_batch 0 nb0)) = []"
    using training_loss_printed[where f = Part_000 and env = toy and trainloader = bad_batch and e = 0 and nb = nb0] s2 by simp
  have s3: "snd (training_cell_in Exercises toy two_batches) =
      Inr \<lparr>model = - 20, grad = Some 3, criterion = NLLLoss, optimizer = 3 / 1000\<rparr>"
    by code_simp
  have "length (printed (fst (training_cell_in Exercises toy two_batches))) = 5 \<and>
      printed (fst (training_cell_in Exercises toy two_batches)) =
        epoch_means toy two_batches [0, 1, 2, 3, 4]
          \<lparr>model = Sequential toy [Linear 784 128, ReLU, Linear 128 64, ReLU, Linear 64 10,
               LogSoftmax 1],
           grad = None, criterion = NLLLoss, optimizer = 3 / 1000\<rparr>"
    using training_loss_printed[where f = Exercises and env = toy and trainloader = two_batches,
        THEN conjunct2, THEN conjunct2]
    unfolding s3 sum.case .
  then have p3: "length (printed (fst (training_cell_in Exercises toy two_batches))) = 5"
    by (rule conjunct1)
  have s4: "snd (training_cell_in Part_000 toy_affine two_labelled) =
      Inr \<lparr>model = - 1023, grad = Some 1529, criterion = NLLLoss, optimizer = 3 / 1000\<rparr>"
    by code_simp
  have m4: "epoch_means toy_affine two_labelled [0, 1, 2, 3, 4]
       \<lparr>model = Sequential toy_affine [Linear 784 128, ReLU, Linear 128 64, ReLU, Linear 64 10,
            LogSoftmax 1],
        grad = None, criterion = NLLLoss, optimizer = 3 / 1000\<rparr> =
     [3 / 2, 6, 24, 96, 384]"
    by code_simp
  have "length (printed (fst (training_cell_in Part_000 toy_affine two_labelled))) = 5 \<and>
      printed (fst (training_cell_in Part_000 toy_affine two_labelled)) =
        epoch_means toy_affine two_labelled [0, 1, 2, 3, 4]
          \<lparr>model = Sequential toy_affine [Linear 784 128, ReLU, Linear 128 64, ReLU,
               Linear 64 10, LogSoftmax 1],
           grad = None, criterion = NLLLoss, optimizer = 3 / 1000\<rparr>"
    using training_loss_printed[where f = Part_000 and env = toy_affine
        and trainloader = two_labelled, THEN conjunct2, THEN conjunct2]
    unfolding s4 sum.case .
  then have p4: "printed (fst (training_cell_in Part_000 toy_affine two_labelled)) =
     [3 / 2, 6, 24, 96, 384]"
    unfolding m4 by (rule conjunct2)
  show ?thesis using s0 b0 p1 i1 l1 s2 p2 p3 p4 by (intro conjI)
qed

text \<open>
  In exact arithmetic, and with a loader whose \<^verbatim>\<open>len\<close> is the number of batches it
  yields, the value is the arithmetic mean of the losses of the batches.
\<close>

lemma foldl_add_sum_list: "foldl (+) a xs = (a::'a::comm_monoid_add) + sum_list xs"
  by (induction xs arbitrary: a) (simp_all add: add.assoc)

lemma mean_in_exact_arithmetic:
  fixes env :: "('m, 'g::monoid_add, 't, 'v::field) env"
  assumes "float_add env = (+)" and "float_zero env = 0"
    and "float_div env = (\<lambda>x n. x / of_nat n)"
    and "len trainloader = length (batches trainloader e)"
    and "snd (epoch_in f env trainloader e nb) = Inr nb'"
  shows "printed (fst (epoch_in f env trainloader e nb)) =
     [sum_list (items env (fst (epoch_in f env trainloader e nb))) /
      of_nat (length (items env (fst (epoch_in f env trainloader e nb))))]"
    and "printed (fst (epoch_in f env trainloader e nb)) =
     [sum_list (map (item env) (epoch_losses env (batches trainloader e) nb)) /
      of_nat (length (epoch_losses env (batches trainloader e) nb))]"
proof -
  have r: "epoch env trainloader e nb = (fst (epoch env trainloader e nb), Inr nb')"
    using assms(5) unfolding epoch_in_eq by (metis run_eq)
  from epoch_ok_printed[OF r] show "printed (fst (epoch_in f env trainloader e nb)) =
     [sum_list (items env (fst (epoch_in f env trainloader e nb))) /
      of_nat (length (items env (fst (epoch_in f env trainloader e nb))))]"
    unfolding epoch_in_eq by (simp add: assms(1-4) foldl_add_sum_list)
  from epoch_loss[OF r] show "printed (fst (epoch_in f env trainloader e nb)) =
     [sum_list (map (item env) (epoch_losses env (batches trainloader e) nb)) /
      of_nat (length (epoch_losses env (batches trainloader e) nb))]"
    unfolding epoch_in_eq by (simp add: mean_loss_def assms(1-4) foldl_add_sum_list)
qed

subsection \<open>An epoch is one pass over the loader's batches\<close>

text \<open>
  Claim C3. In both notebooks, an epoch that runs to its end has taken from the loader
  exactly the batches its iterator yields, each once and in the loader's order, has run
  one training pass on each, and only then has asked for \<^verbatim>\<open>len(trainloader)\<close>,
  divided and printed. An epoch that an exception interrupts has taken a prefix of the
  batches and has printed nothing. A training cell that runs to its end has taken the
  batches of the five iterators one after the other.
\<close>

theorem epoch_is_one_full_pass:
  "(case snd (epoch_in f env trainloader e nb) of
      Inl _ \<Rightarrow>
        prefix (fetched (fst (epoch_in f env trainloader e nb))) (batches trainloader e) \<and>
        printed (fst (epoch_in f env trainloader e nb)) = []
    | Inr _ \<Rightarrow>
        fetched (fst (epoch_in f env trainloader e nb)) = batches trainloader e \<and>
        apis (fst (epoch_in f env trainloader e nb)) =
          concat (replicate (length (batches trainloader e)) pass_apis) @ else_apis) \<and>
   (case snd (training_cell_in f env trainloader) of
      Inl _ \<Rightarrow>
        prefix (fetched (fst (training_cell_in f env trainloader)))
          (concat (map (batches trainloader) [0..<5]))
    | Inr _ \<Rightarrow>
        fetched (fst (training_cell_in f env trainloader)) =
          concat (map (batches trainloader) [0..<5]))"
proof -
  let ?r = "epoch env trainloader e nb"
  have "case snd ?r of
      Inl _ \<Rightarrow> prefix (fetched (fst ?r)) (batches trainloader e) \<and> printed (fst ?r) = []
    | Inr _ \<Rightarrow>
        fetched (fst ?r) = batches trainloader e \<and>
        apis (fst ?r) = concat (replicate (length (batches trainloader e)) pass_apis) @ else_apis"
  proof (cases "snd ?r")
    case (Inl err)
    then have "?r = (fst ?r, Inl err)" by (metis run_eq)
    from epoch_fail_fetched[OF this] epoch_fail[OF this] Inl show ?thesis by simp
  next
    case (Inr nb')
    then have "?r = (fst ?r, Inr nb')" by (metis run_eq)
    from epoch_ok_printed[OF this] epoch_apis[OF this] Inr show ?thesis by simp
  qed
  moreover
  let ?c = "training_cell env trainloader"
  have "case snd ?c of
      Inl _ \<Rightarrow> prefix (fetched (fst ?c)) (concat (map (batches trainloader) [0..<5]))
    | Inr _ \<Rightarrow> fetched (fst ?c) = concat (map (batches trainloader) [0..<5])"
  proof (cases "snd ?c")
    case (Inl err)
    then have "?c = (fst ?c, Inl err)" by (metis run_eq)
    from training_cell_fail_fetched[OF this] Inl show ?thesis by (simp add: epochs_def)
  next
    case (Inr nb')
    then have "?c = (fst ?c, Inr nb')" by (metis run_eq)
    from training_cell_ok[OF this] Inr show ?thesis by (simp add: epochs_def)
  qed
  ultimately show ?thesis unfolding epoch_in_eq training_cell_in_eq by simp
qed

text \<open>
  On the small framework: both batches of an epoch are taken, and when the second is
  rejected the epoch has still taken both and stops there.
\<close>

theorem epoch_is_one_full_pass_witness:
  "fetched (fst (epoch_in Part_000 toy two_batches 0 nb0)) = [(1, 0), (3, 0)] \<and>
   apis (fst (epoch_in Part_000 toy two_batches 0 nb0)) = pass_apis @ pass_apis @ else_apis \<and>
   snd (epoch_in Exercises toy bad_batch 0 nb0) = Inl (FrameworkError 1) \<and>
   prefix (fetched (fst (epoch_in Exercises toy bad_batch 0 nb0))) [(1, 0), (3, - 1)] \<and>
   length (fetched (fst (training_cell_in Exercises toy two_batches))) = 10"
proof -
  have s1: "snd (epoch_in Part_000 toy two_batches 0 nb0) =
      Inr \<lparr>model = - 4, grad = Some 3, criterion = NLLLoss, optimizer = 1 / 100\<rparr>"
    by code_simp
  have b1: "batches two_batches 0 = [(1, 0), (3, 0)]"
    by (simp add: two_batches_def)
  have p1: "fetched (fst (epoch_in Part_000 toy two_batches 0 nb0)) = [(1, 0), (3, 0)] \<and>
      apis (fst (epoch_in Part_000 toy two_batches 0 nb0)) = pass_apis @ pass_apis @ else_apis"
    using epoch_is_one_full_pass[of Part_000 toy two_batches 0 nb0] s1 b1 by simp
  have s2: "snd (epoch_in Exercises toy bad_batch 0 nb0) = Inl (FrameworkError 1)"
    by code_simp
  have b2: "batches bad_batch 0 = [(1, 0), (3, - 1)]"
    by (simp add: bad_batch_def)
  have p2: "prefix (fetched (fst (epoch_in Exercises toy bad_batch 0 nb0))) [(1, 0), (3, - 1)]"
    using epoch_is_one_full_pass[of Exercises toy bad_batch 0 nb0] s2 b2 by simp
  have s3: "snd (training_cell_in Exercises toy two_batches) =
      Inr \<lparr>model = - 20, grad = Some 3, criterion = NLLLoss, optimizer = 3 / 1000\<rparr>"
    by code_simp
  have "fetched (fst (training_cell_in Exercises toy two_batches)) =
      concat (map (batches two_batches) [0..<5])"
    using epoch_is_one_full_pass[of Exercises toy two_batches] s3 by simp
  then have p3: "length (fetched (fst (training_cell_in Exercises toy two_batches))) = 10"
    by (simp add: two_batches_def length_concat comp_def sum_list_triv)
  show ?thesis using p1 s2 p2 p3 by simp
qed

subsection \<open>The order of a training pass\<close>

lemma in_order_append:
  "in_order p (xs @ ys) = (case in_order p xs of None \<Rightarrow> None | Some q \<Rightarrow> in_order q ys)"
  by (induction xs arbitrary: p) (auto split: option.splits)

lemma training_pass_order:
  assumes "training_pass env b acc = (tr, r)"
  shows "case r of Inr _ \<Rightarrow> in_order Idle (map fst tr) = Some Idle
                 | Inl _ \<Rightarrow> in_order Idle (map fst tr) \<noteq> None"
  using assms
  by (cases b; cases acc; cases r)
     (auto simp: training_pass_def bind_Inr bind_Inl call_eq ret_eq)

lemma batches_order:
  assumes "for_each (training_pass env) bs acc = (tr, r)"
  shows "case r of Inr _ \<Rightarrow> in_order Idle (map fst tr) = Some Idle
                 | Inl _ \<Rightarrow> in_order Idle (map fst tr) \<noteq> None"
proof (cases r)
  case (Inr a)
  have "in_order Idle (map fst tr) = Some Idle"
    by (rule for_each_ok[OF assms[unfolded Inr], where R = "\<lambda>t. in_order Idle (map fst t) = Some Idle"])
       (use training_pass_order in \<open>force simp: in_order_append\<close>)+
  then show ?thesis using Inr by simp
next
  case (Inl e)
  have "\<exists>t1 t2 x a. tr = t1 @ t2 \<and> in_order Idle (map fst t1) = Some Idle \<and>
          training_pass env x a = (t2, Inl e)"
    by (rule for_each_fail[OF assms[unfolded Inl], where R = "\<lambda>t. in_order Idle (map fst t) = Some Idle"])
       (use training_pass_order in \<open>force simp: in_order_append\<close>)+
  then show ?thesis using Inl training_pass_order by (force simp: in_order_append)
qed

lemma epoch_order:
  assumes "epoch env trainloader e nb = (tr, r)"
  shows "case r of Inr _ \<Rightarrow> in_order Idle (map fst tr) = Some Idle
                 | Inl _ \<Rightarrow> in_order Idle (map fst tr) \<noteq> None"
  using assms
  by (cases r)
     (auto simp: epoch_def bind_Inr bind_Inl call_eq ret_eq in_order_append
           split: prod.splits dest!: batches_order)

lemma epochs_order:
  assumes "for_each (epoch env trainloader) es nb = (tr, r)"
  shows "in_order Idle (map fst tr) \<noteq> None"
proof (cases r)
  case (Inr a)
  have "in_order Idle (map fst tr) = Some Idle"
    by (rule for_each_ok[OF assms[unfolded Inr], where R = "\<lambda>t. in_order Idle (map fst t) = Some Idle"])
       (use epoch_order in \<open>force simp: in_order_append\<close>)+
  then show ?thesis by simp
next
  case (Inl e)
  have "\<exists>t1 t2 x a. tr = t1 @ t2 \<and> in_order Idle (map fst t1) = Some Idle \<and>
          epoch env trainloader x a = (t2, Inl e)"
    by (rule for_each_fail[OF assms[unfolded Inl], where R = "\<lambda>t. in_order Idle (map fst t) = Some Idle"])
       (use epoch_order in \<open>force simp: in_order_append\<close>)+
  then show ?thesis using epoch_order by (force simp: in_order_append)
qed

lemma training_cell_order: "pass_order (training_cell env trainloader)"
proof -
  obtain tr r where c: "training_cell env trainloader = (tr, r)" by (metis surj_pair)
  then have "in_order Idle (map fst tr) \<noteq> None"
    by (cases r)
       (auto simp: training_cell_def bind_Inr bind_Inl call_eq ret_eq in_order_append raised_def
             dest!: epochs_order)
  then show ?thesis by (simp add: pass_order_def c)
qed

lemma single_step_demo_order: "pass_order (single_step_demo env trainloader k nb)"
proof -
  obtain tr r where c: "single_step_demo env trainloader k nb = (tr, r)" by (metis surj_pair)
  then have "in_order Idle (map fst tr) \<noteq> None"
    by (cases r)
       (auto simp: single_step_demo_def single_step_def update_step_def bind_Inr bind_Inl
             call_eq ret_eq in_order_append split: prod.splits)
  then show ?thesis by (simp add: pass_order_def c)
qed

lemma training_pass_loss_arguments:
  assumes "view_rows env images = Inr flat" and "model_call env (model nb) flat = Inr output"
  shows "filter (\<lambda>c. api_of c = Loss_call)
           (map fst (fst (training_pass env (images, labels) (nb, running_loss)))) =
         [Criterion output labels] \<and>
         filter (\<lambda>c. api_of c = Module_call)
           (map fst (fst (training_pass env (images, labels) (nb, running_loss)))) =
         [Forward flat]"
  using assms
  by (simp add: training_pass_def fst_bind snd_bind call_def ret_def zero_grad_def
        split: sum.splits)

lemma training_pass_core:
  assumes "training_pass env b acc = (tr, r)"
  shows "prefix
           (filter (\<lambda>a. a \<in> {Module_call, Loss_call, Tensor_backward, Optimizer_step}) (apis tr))
           [Module_call, Loss_call, Tensor_backward, Optimizer_step]"
  using assms
  by (cases b; cases acc; cases r)
     (auto simp: training_pass_def bind_Inr bind_Inl call_eq ret_eq apis_def)

text \<open>
  Claim C2. Every log of a training cell, of a single training pass and of the two
  cells of the single step, in both notebooks and whether or not an exception ends it,
  has its forward passes, loss computations, backward passes and optimizer steps in
  rounds of exactly this order; within one training pass the four operations occur at
  most once each, in this order; and the loss of a pass is computed from what the model
  returned for the flattened images of the batch and from the labels of the batch.
\<close>

theorem training_pass_order_fixed:
  "pass_order (training_cell_in f env trainloader) \<and>
   pass_order (training_pass_in f env b acc) \<and>
   prefix
     (filter (\<lambda>a. a \<in> {Module_call, Loss_call, Tensor_backward, Optimizer_step})
        (apis (fst (training_pass_in f env b acc))))
     [Module_call, Loss_call, Tensor_backward, Optimizer_step] \<and>
   (view_rows env images = Inr flat \<and> model_call env (model nb) flat = Inr output \<longrightarrow>
      filter (\<lambda>c. api_of c = Loss_call)
        (map fst (fst (training_pass_in f env (images, labels) (nb, running_loss)))) =
      [Criterion output labels]) \<and>
   pass_order (single_step_demo env trainloader k nb)"
proof -
  obtain tr r where c: "training_pass env b acc = (tr, r)"
    by (metis surj_pair)
  have "pass_order (training_pass env b acc)"
    using training_pass_order[OF c] by (cases r) (simp_all add: pass_order_def c)
  moreover have "prefix
     (filter (\<lambda>a. a \<in> {Module_call, Loss_call, Tensor_backward, Optimizer_step})
        (apis (fst (training_pass env b acc))))
     [Module_call, Loss_call, Tensor_backward, Optimizer_step]"
    using training_pass_core[OF c] by (simp add: c)
  moreover have "view_rows env images = Inr flat \<and> model_call env (model nb) flat = Inr output \<longrightarrow>
      filter (\<lambda>c. api_of c = Loss_call)
        (map fst (fst (training_pass env (images, labels) (nb, running_loss)))) =
      [Criterion output labels]"
  proof
    assume a: "view_rows env images = Inr flat \<and> model_call env (model nb) flat = Inr output"
    from training_pass_loss_arguments[OF conjunct1[OF a] conjunct2[OF a]]
    show "filter (\<lambda>c. api_of c = Loss_call)
        (map fst (fst (training_pass env (images, labels) (nb, running_loss)))) =
      [Criterion output labels]"
      by (rule conjunct1)
  qed
  ultimately show ?thesis
    unfolding training_cell_in_eq training_pass_in_eq
    using training_cell_order single_step_demo_order by blast
qed

text \<open>The check is not empty: a backward pass before the forward pass is refused.\<close>

lemma backward_before_forward_refused: "in_order Idle [Backward l, Forward x] = None"
  by simp

text \<open>
  On the small framework, the four operations of the first pass of the cell and of the
  single step.
\<close>

theorem training_pass_order_fixed_witness:
  "pass_order (training_cell_in Exercises toy two_batches) \<and>
   filter (\<lambda>a. a \<in> {Module_call, Loss_call, Tensor_backward, Optimizer_step})
     (apis (fst (training_pass_in Part_000 toy (1, 0) (nb0, 0)))) =
     [Module_call, Loss_call, Tensor_backward, Optimizer_step] \<and>
   filter (\<lambda>c. api_of c = Loss_call)
     (map fst (fst (training_pass_in Exercises toy (1, 0) (nb0, 0)))) = [Criterion 1 0] \<and>
   map fst (fst (single_step_demo toy two_batches 0 nb0)) =
     [PrintWeight, NextIter, Resize [64, 784] 1, ZeroGrad, Forward 1, Criterion 1 0,
      Backward 1, PrintGrad, Step (Some 1), PrintWeight]"
proof -
  have "filter (\<lambda>a. a \<in> {Module_call, Loss_call, Tensor_backward, Optimizer_step})
     (apis (fst (training_pass_in Part_000 toy (1, 0) (nb0, 0)))) =
     [Module_call, Loss_call, Tensor_backward, Optimizer_step]"
    by code_simp
  moreover have "map fst (fst (single_step_demo toy two_batches 0 nb0)) =
     [PrintWeight, NextIter, Resize [64, 784] 1, ZeroGrad, Forward 1, Criterion 1 0,
      Backward 1, PrintGrad, Step (Some 1), PrintWeight]"
    by code_simp
  moreover have "view_rows toy 1 = Inr 1 \<and> model_call toy (model nb0) 1 = Inr 1"
    by (simp add: toy_def)
  ultimately show ?thesis
    using training_pass_order_fixed[of Exercises toy two_batches _ _ 1 1 nb0 1 0 0]
    by simp
qed

subsection \<open>The gradients an optimizer step reads\<close>

lemma grad_protocol_append:
  "grad_protocol env s (xs @ ys) =
     (case grad_protocol env s xs of None \<Rightarrow> None | Some s' \<Rightarrow> grad_protocol env s' ys)"
  by (induction xs arbitrary: s) (auto split: option.splits)

lemma backward_after_zero_grad:
  assumes "backward env loss (zero_grad nb) = Inr nb'"
  shows "\<exists>g. autograd env loss = Inr g \<and> grad nb' = Some g"
  using assms
  by (cases "grad nb") (auto simp: backward_def zero_grad_def split: sum.splits)

lemma training_pass_grads:
  assumes "training_pass env b acc = (tr, r)"
  shows "case r of Inr _ \<Rightarrow> grad_protocol env Stale (map fst tr) = Some Stale
                 | Inl _ \<Rightarrow> grad_protocol env Stale (map fst tr) \<noteq> None"
  using assms
  by (cases b; cases acc; cases r)
     (auto simp: training_pass_def bind_Inr bind_Inl call_eq ret_eq
           dest!: backward_after_zero_grad[OF sym])

lemma batches_grads:
  assumes "for_each (training_pass env) bs acc = (tr, r)"
  shows "case r of Inr _ \<Rightarrow> grad_protocol env Stale (map fst tr) = Some Stale
                 | Inl _ \<Rightarrow> grad_protocol env Stale (map fst tr) \<noteq> None"
proof (cases r)
  case (Inr a)
  have "grad_protocol env Stale (map fst tr) = Some Stale"
    by (rule for_each_ok[OF assms[unfolded Inr],
          where R = "\<lambda>t. grad_protocol env Stale (map fst t) = Some Stale"])
       (use training_pass_grads in \<open>force simp: grad_protocol_append\<close>)+
  then show ?thesis using Inr by simp
next
  case (Inl e)
  have "\<exists>t1 t2 x a. tr = t1 @ t2 \<and> grad_protocol env Stale (map fst t1) = Some Stale \<and>
          training_pass env x a = (t2, Inl e)"
    by (rule for_each_fail[OF assms[unfolded Inl],
          where R = "\<lambda>t. grad_protocol env Stale (map fst t) = Some Stale"])
       (use training_pass_grads in \<open>force simp: grad_protocol_append\<close>)+
  then show ?thesis using Inl training_pass_grads by (force simp: grad_protocol_append)
qed

lemma epoch_grads:
  assumes "epoch env trainloader e nb = (tr, r)"
  shows "case r of Inr _ \<Rightarrow> grad_protocol env Stale (map fst tr) = Some Stale
                 | Inl _ \<Rightarrow> grad_protocol env Stale (map fst tr) \<noteq> None"
  using assms
  by (cases r)
     (auto simp: epoch_def bind_Inr bind_Inl call_eq ret_eq grad_protocol_append
           split: prod.splits dest!: batches_grads)

lemma epochs_grads:
  assumes "for_each (epoch env trainloader) es nb = (tr, r)"
  shows "grad_protocol env Stale (map fst tr) \<noteq> None"
proof (cases r)
  case (Inr a)
  have "grad_protocol env Stale (map fst tr) = Some Stale"
    by (rule for_each_ok[OF assms[unfolded Inr],
          where R = "\<lambda>t. grad_protocol env Stale (map fst t) = Some Stale"])
       (use epoch_grads in \<open>force simp: grad_protocol_append\<close>)+
  then show ?thesis by simp
next
  case (Inl e)
  have "\<exists>t1 t2 x a. tr = t1 @ t2 \<and> grad_protocol env Stale (map fst t1) = Some Stale \<and>
          epoch env trainloader x a = (t2, Inl e)"
    by (rule for_each_fail[OF assms[unfolded Inl],
          where R = "\<lambda>t. grad_protocol env Stale (map fst t) = Some Stale"])
       (use epoch_grads in \<open>force simp: grad_protocol_append\<close>)+
  then show ?thesis using epoch_grads by (force simp: grad_protocol_append)
qed

lemma training_cell_grads: "fresh_gradients env (training_cell env trainloader)"
proof -
  obtain tr r where c: "training_cell env trainloader = (tr, r)" by (metis surj_pair)
  then have "grad_protocol env Stale (map fst tr) \<noteq> None"
    by (cases r)
       (auto simp: training_cell_def bind_Inr bind_Inl call_eq ret_eq grad_protocol_append
             raised_def dest!: epochs_grads)
  then show ?thesis by (simp add: fresh_gradients_def c)
qed

text \<open>
  Claim C8. In the training cell of both notebooks, whatever the framework and the
  loader, every backward pass finds buffers that \<^verbatim>\<open>optimizer.zero_grad()\<close> has cleared
  since the previous backward pass, and every \<^verbatim>\<open>optimizer.step()\<close> reads exactly the
  gradients of the loss of the backward pass just before it, the one of its own batch:
  nothing of an earlier batch or epoch is in the buffers.
\<close>

theorem gradients_of_current_batch_only:
  "fresh_gradients env (training_cell_in f env trainloader)"
  unfolding training_cell_in_eq by (rule training_cell_grads)

text \<open>
  The check is not empty: on the small framework, a second backward pass with no
  \<^verbatim>\<open>zero_grad\<close> before it is refused, and so is a step that reads the sum of two
  gradients.
\<close>

lemma accumulated_gradients_refused:
  "grad_protocol toy Stale [ZeroGrad, Backward 1, Step (Some 1), Backward 3, Step (Some 4)] = None \<and>
   grad_protocol toy Stale [ZeroGrad, Backward 1, Step (Some 1), ZeroGrad, Backward 3, Step (Some 4)] = None \<and>
   grad_protocol toy Stale [ZeroGrad, Backward 1, Step (Some 1), ZeroGrad, Backward 3, Step (Some 3)] = Some Stale"
  by (simp add: toy_def)

text \<open>
  On the small framework, started from a notebook whose buffers hold 5: the steps of an
  epoch read 1 and 3, the gradients of its two batches.
\<close>

theorem gradients_of_current_batch_only_witness:
  "fresh_gradients toy (training_cell_in Part_000 toy two_batches) \<and>
   filter (\<lambda>c. api_of c = Optimizer_step) (map fst (fst (epoch_in Part_000 toy two_batches 0 nb0))) =
     [Step (Some 1), Step (Some 3)]"
proof -
  have "filter (\<lambda>c. api_of c = Optimizer_step)
      (map fst (fst (epoch_in Part_000 toy two_batches 0 nb0))) = [Step (Some 1), Step (Some 3)]"
    by code_simp
  then show ?thesis
    using gradients_of_current_batch_only[of toy Part_000 two_batches] by simp
qed

subsection \<open>Exceptions are not caught\<close>











text \<open>The check is not empty: a run that goes on after an exception is refused.\<close>

lemma swallowed_exception_refused:
  "\<not> uncaught ([(c, Some e), (c', None)], Inr x) \<and> \<not> uncaught ([(c, Some e), (c', None)], Inl e)"
  by (simp add: uncaught_def)


subsection \<open>The shape of the logs\<close>

lemma training_pass_apis_prefix:
  assumes "training_pass env b acc = (tr, Inl e)"
  shows "strict_prefix (apis tr) pass_apis"
  using assms
  by (cases b; cases acc)
     (auto simp: training_pass_def bind_Inr bind_Inl call_eq ret_eq apis_def pass_apis_def
        strict_prefix_def)

lemma batches_apis_prefix:
  "for_each (training_pass env) bs acc = (tr, Inl e) \<Longrightarrow>
   prefix (apis tr) (concat (replicate (length bs) pass_apis))"
proof (induction bs arbitrary: acc tr)
  case Nil
  then show ?case by (simp add: ret_eq)
next
  case (Cons b bs)
  from Cons.prems consider
    (now) "training_pass env b acc = (tr, Inl e)"
    | (later) t1 a t2 where "training_pass env b acc = (t1, Inr a)"
        "for_each (training_pass env) bs a = (t2, Inl e)" "tr = t1 @ t2"
    by (auto simp: bind_Inl)
  then show ?case
  proof cases
    case now
    have "prefix (apis tr) pass_apis"
      using training_pass_apis_prefix[OF now] by (simp add: strict_prefix_def)
    then have "prefix (apis tr) (pass_apis @ concat (replicate (length bs) pass_apis))"
      by (rule prefix_prefix)
    then show ?thesis by simp
  next
    case later
    have "apis t1 = pass_apis" using training_pass_apis[OF later(1)] .
    then show ?thesis using Cons.IH[OF later(2)] later(3) by (simp add: apis_append)
  qed
qed

lemma epoch_apis_prefix:
  assumes "epoch env trainloader e nb = (tr, Inl err)"
  shows "prefix (apis tr) (concat (replicate (length (batches trainloader e)) pass_apis) @ else_apis)"
proof -
  from assms consider
    (loop) "for_each (training_pass env) (batches trainloader e) (nb, float_zero env) = (tr, Inl err)"
    | (div) t1 nb' rl where
        "for_each (training_pass env) (batches trainloader e) (nb, float_zero env) = (t1, Inr (nb', rl))"
        "tr = t1 @ [(Len, None), (Div rl (len trainloader), Some err)]"
    by (auto simp: epoch_def bind_Inr bind_Inl call_eq ret_eq raised_def truediv_def
             split: prod.splits if_splits)
  then show ?thesis
  proof cases
    case loop
    show ?thesis by (rule prefix_prefix[OF batches_apis_prefix[OF loop]])
  next
    case div
    have "apis t1 = concat (replicate (length (batches trainloader e)) pass_apis)"
      using batches_apis[OF div(1)] .
    then show ?thesis using div(2) by (simp add: apis_append else_apis_def apis_def)
  qed
qed

lemma epochs_apis_prefix:
  "for_each (epoch env trainloader) es nb = (tr, Inl err) \<Longrightarrow>
   prefix (apis tr)
     (concat (map (\<lambda>e. concat (replicate (length (batches trainloader e)) pass_apis) @ else_apis) es))"
proof (induction es arbitrary: nb tr)
  case Nil
  then show ?case by (simp add: ret_eq)
next
  case (Cons e es)
  from Cons.prems consider
    (now) "epoch env trainloader e nb = (tr, Inl err)"
    | (later) t1 a t2 where "epoch env trainloader e nb = (t1, Inr a)"
        "for_each (epoch env trainloader) es a = (t2, Inl err)" "tr = t1 @ t2"
    by (auto simp: bind_Inl)
  then show ?case
  proof cases
    case now
    have "prefix (apis tr)
        ((concat (replicate (length (batches trainloader e)) pass_apis) @ else_apis) @
         concat (map (\<lambda>e. concat (replicate (length (batches trainloader e)) pass_apis) @ else_apis) es))"
      by (rule prefix_prefix[OF epoch_apis_prefix[OF now]])
    then show ?thesis by simp
  next
    case later
    then show ?thesis using Cons.IH[OF later(2)] epoch_apis[OF later(1)] by (simp add: apis_append)
  qed
qed

lemma training_cell_apis_prefix:
  assumes "training_cell env trainloader = (tr, Inl err)"
  shows "prefix (apis tr)
     ([nn_Sequential, nn_NLLLoss, optim_SGD] @
      concat (map (\<lambda>e. concat (replicate (length (batches trainloader e)) pass_apis) @ else_apis)
        [0..<epochs]))"
  using assms
  by (auto simp: training_cell_def bind_Inr bind_Inl call_eq ret_eq apis_append raised_def
           dest!: epochs_apis_prefix)
     (simp_all add: apis_def)







subsection \<open>The two training cells are the same program\<close>

text \<open>
  Claim C4. The training cells of the two notebooks build the same network (Linear
  784 to 128, ReLU, Linear 128 to 64, ReLU, Linear 64 to 10, LogSoftmax over dimension
  1), the negative-log-likelihood loss and an SGD optimizer with learning rate 0.003,
  run 5 epochs, and have the same training pass: given the same framework (which
  includes the initial parameters it draws) and the same batches from the loader, they
  perform the same operations and end in the same state, or raise the same exception.
\<close>

theorem notebooks_train_alike:
  "layers_ex = layers \<and>
   layers = [Linear 784 128, ReLU, Linear 128 64, ReLU, Linear 64 10, LogSoftmax 1] \<and>
   lr_ex = lr \<and> lr = 3 / 1000 \<and> epochs_ex = epochs \<and> epochs = 5 \<and>
   take 3 (fst (training_cell_ex env trainloader)) =
     [(NewSequential layers, None), (NewLoss NLLLoss, None), (NewSGD lr, None)] \<and>
   training_pass_ex env b acc = training_pass env b acc \<and>
   epoch_ex env trainloader e nb = epoch env trainloader e nb \<and>
   training_cell_ex env trainloader = training_cell env trainloader"
proof -
  have "take 3 (fst (training_cell env trainloader)) =
     [(NewSequential layers, None), (NewLoss NLLLoss, None), (NewSGD lr, None)]"
    by (simp add: training_cell_def fst_bind call_def raised_def)
  then show ?thesis
    by (simp add: training_cell_ex_eq epoch_ex_eq training_pass_ex_eq layers_ex_def layers_def
          lr_ex_def lr_def epochs_ex_def epochs_def)
qed

text \<open>On the small framework both cells print the same five values.\<close>

theorem notebooks_train_alike_witness:
  "printed (fst (training_cell_ex toy two_batches)) = [2, 2, 2, 2, 2] \<and>
   printed (fst (training_cell toy two_batches)) = [2, 2, 2, 2, 2]"
proof -
  have "printed (fst (training_cell toy two_batches)) = [2, 2, 2, 2, 2]"
    by code_simp
  then show ?thesis
    using notebooks_train_alike[of toy two_batches] by simp
qed

subsection \<open>The training cell is a loop with an accumulator\<close>




subsection \<open>The framework surface the notebooks use\<close>

text \<open>
  Claim C6 says that nothing of the framework outside the listed surface is called. In
  both notebooks the second code cell builds its criterion with
  \<^verbatim>\<open>nn.CrossEntropyLoss()\<close>, which is neither the log-softmax nor the
  negative-log-likelihood loss, and the last code cell calls \<^verbatim>\<open>torch.exp\<close>.
\<close>

theorem surface_counterexample:
  "nn_CrossEntropyLoss \<in> set (calls Part_000) \<and> nn_CrossEntropyLoss \<in> set (calls Exercises) \<and>
   framework nn_CrossEntropyLoss \<and> listed nn_CrossEntropyLoss = None \<and>
   torch_exp \<in> set (calls Part_000) \<and> torch_exp \<in> set (calls Exercises) \<and>
   framework torch_exp \<and> listed torch_exp = None"
  by (simp add: calls_def code_cells_def code_cells_ex_def)

lemma shape_set:
  "set (concat (map (\<lambda>e. concat (replicate (n e) pass_apis) @ else_apis) es))
     \<subseteq> set pass_apis \<union> set else_apis"
  by (induction es) (auto split: if_splits)

lemma training_cell_calls_listed:
  "set (apis (fst (training_cell env trainloader))) \<subseteq> set (code_cells ! 14)"
proof -
  let ?c = "training_cell env trainloader"
  let ?shape = "[nn_Sequential, nn_NLLLoss, optim_SGD] @
      concat (map (\<lambda>e. concat (replicate (length (batches trainloader e)) pass_apis) @ else_apis)
        [0..<epochs])"
  have "prefix (apis (fst ?c)) ?shape"
  proof (cases "snd ?c")
    case (Inl err)
    then have "?c = (fst ?c, Inl err)" by (metis run_eq)
    from training_cell_apis_prefix[OF this] show ?thesis .
  next
    case (Inr nb')
    then have "?c = (fst ?c, Inr nb')" by (metis run_eq)
    from training_cell_apis[OF this] show ?thesis by simp
  qed
  then have "set (apis (fst ?c)) \<subseteq> set ?shape" by (rule set_mono_prefix)
  also have "\<dots> \<subseteq> {nn_Sequential, nn_NLLLoss, optim_SGD} \<union> set pass_apis \<union> set else_apis"
    using shape_set[of "\<lambda>e. length (batches trainloader e)" "[0..<epochs]"] by auto
  also have "\<dots> \<subseteq> set (code_cells ! 14)"
    by (simp add: code_cells_def pass_apis_def else_apis_def)
  finally show ?thesis .
qed

text \<open>
  Claim C6, amended. In both notebooks the calls into the framework are the listed
  surface, every entry of which is used, and beyond it exactly these: the cross-entropy
  loss, \<^verbatim>\<open>torch.exp\<close>, tensor arithmetic (\<^verbatim>\<open>**\<close>, \<^verbatim>\<open>mean\<close>, \<^verbatim>\<open>/\<close>) and tensor
  reshaping and access (\<^verbatim>\<open>view\<close>, \<^verbatim>\<open>resize_\<close>, \<^verbatim>\<open>shape\<close>, indexing,
  \<^verbatim>\<open>item\<close>). Outside the framework the cells call only \<^verbatim>\<open>print\<close>, \<^verbatim>\<open>range\<close>,
  Python's division, the plotting helper \<^verbatim>\<open>helper.view_classify\<close> and the magic
  \<^verbatim>\<open>%matplotlib inline\<close>: nothing that reads arguments, opens a file or speaks a
  protocol. Every operation that a run of the training cell performs is among the
  calls of that cell.
\<close>

theorem surface_used:
  "set (filter (\<lambda>a. framework a \<and> listed a = None) (calls f)) =
     {nn_CrossEntropyLoss, torch_exp, Tensor_pow, Tensor_mean, Tensor_div, Tensor_view,
      Tensor_resize, Tensor_shape, Tensor_getitem, Tensor_item} \<and>
   set (filter (\<lambda>a. \<not> framework a) (calls f)) =
     {py_print, py_range, py_truediv, helper_view_classify, matplotlib_inline} \<and>
   set (List.map_filter listed (calls f)) =
     {tensor_construction, autodiff_flags, sequential_container, layers_linear_activation,
      log_softmax_nll_loss, sgd_optimizer, dataset_loader} \<and>
   set (apis (fst (training_cell_in f env trainloader))) \<subseteq> set (calls f)"
proof -
  have "set (code_cells ! 14) \<subseteq> set (calls f)"
    by (cases f) (simp_all add: calls_def code_cells_def code_cells_ex_def)
  then have "set (apis (fst (training_cell_in f env trainloader))) \<subseteq> set (calls f)"
    unfolding training_cell_in_eq using training_cell_calls_listed by blast
  moreover have "set (filter (\<lambda>a. framework a \<and> listed a = None) (calls f)) =
     {nn_CrossEntropyLoss, torch_exp, Tensor_pow, Tensor_mean, Tensor_div, Tensor_view,
      Tensor_resize, Tensor_shape, Tensor_getitem, Tensor_item}"
    by (cases f) (auto simp: calls_def code_cells_def code_cells_ex_def)
  moreover have "set (filter (\<lambda>a. \<not> framework a) (calls f)) =
     {py_print, py_range, py_truediv, helper_view_classify, matplotlib_inline}"
    by (cases f) (auto simp: calls_def code_cells_def code_cells_ex_def)
  moreover have "set (List.map_filter listed (calls f)) =
     {tensor_construction, autodiff_flags, sequential_container, layers_linear_activation,
      log_softmax_nll_loss, sgd_optimizer, dataset_loader}"
    by (cases f) (auto simp: calls_def code_cells_def code_cells_ex_def List.map_filter_def)
  ultimately show ?thesis by blast
qed

text \<open>In the Exercises notebook, as an instance.\<close>

theorem surface_used_witness:
  "nn_CrossEntropyLoss \<in> set (filter (\<lambda>a. framework a \<and> listed a = None) (calls Exercises)) \<and>
   helper_view_classify \<in> set (filter (\<lambda>a. \<not> framework a) (calls Exercises)) \<and>
   set (apis (fst (training_cell_in Exercises toy two_batches))) \<subseteq> set (calls Exercises)"
  using surface_used[of Exercises toy two_batches] by simp

subsection \<open>Flattening a batch: \<^verbatim>\<open>resize_\<close> and \<^verbatim>\<open>view\<close>\<close>

lemma view_batch_images:
  assumes "shape images = n # dims" and "numel images = n * prod_list dims" and "0 < n"
  shows "view_batch images = Inr \<lparr>shape = [n, prod_list dims], storage = storage images\<rparr>"
  using assms by (cases images) (simp add: view_batch_def view_def numel_def)

lemma resize_images:
  "resize junk [64, 784] images =
     \<lparr>shape = [64, 784],
      storage = (if numel images < 50176 then storage images @ map junk [numel images..<50176]
                 else take 50176 (storage images))\<rparr>"
  by (simp add: resize_def numel_def)

lemma resize_is_view:
  assumes "shape images = n # dims" and "numel images = n * prod_list dims" and "0 < n"
  shows "Inr (resize junk [64, 784] images) = view_batch images \<longleftrightarrow>
         n = 64 \<and> prod_list dims = 784"
  unfolding view_batch_images[OF assms] using assms(2)
  by (auto simp add: resize_def numel_def)

lemma forwarded_training_pass:
  assumes "view_rows env images = Inr flat"
  shows "forwarded (fst (training_pass env (images, labels) acc)) = [flat]"
  using assms
  by (cases acc)
     (simp add: training_pass_def fst_bind snd_bind call_def ret_def forwarded_def
        split: sum.splits)

lemma forwarded_single_step:
  assumes "batches trainloader k = (images, labels) # rest"
    and "resize_inplace env [64, 784] images = Inr flat"
  shows "forwarded (fst (single_step env trainloader k nb)) = [flat] \<and>
         (Resize [64, 784] images, None) \<in> set (fst (single_step env trainloader k nb))"
  using assms
  by (simp add: single_step_def fst_bind snd_bind call_def ret_def forwarded_def next_iter_def
        raised_def split: sum.splits)

text \<open>
  Claim C10 says that every flattening other than the \<^verbatim>\<open>resize_\<close> of the single-step
  cell is \<^verbatim>\<open>images.view(images.shape[0], -1)\<close>. The last code cell of both notebooks
  flattens the first image of a batch with \<^verbatim>\<open>images[0].view(1, 784)\<close>, which states the
  784 as the single-step cell does: on an image of 14 by 14 pixels it raises, where
  \<^verbatim>\<open>view(shape[0], -1)\<close> gives a row of 196.
\<close>

theorem last_cell_flattens_to_a_stated_shape:
  "\<not> list_all (\<lambda>x. fst x = 13 \<or> snd x = View_rows) flattenings \<and>
   view [1, 784] \<lparr>shape = [1, 14, 14], storage = replicate 196 (0::int)\<rparr> = Inl ShapeError \<and>
   view_batch \<lparr>shape = [1, 14, 14], storage = replicate 196 (0::int)\<rparr> =
     Inr \<lparr>shape = [1, 196], storage = replicate 196 0\<rparr>"
  by (simp add: flattenings_def view_def view_batch_def numel_def)

text \<open>
  Claim C10, amended. Take a batch of \<open>n\<close> images, \<open>n\<close> not zero, each of the dimensions
  \<open>dims\<close>. The training pass of both notebooks calls the model on all the elements of the
  batch in \<open>n\<close> rows, whatever \<open>n\<close> is. The single-step cell calls it on 64 rows of 784
  elements: when the batch has more than 64 times 784 elements the rest is dropped, when
  it has fewer the missing ones are whatever the memory held, and in neither case does
  \<^verbatim>\<open>resize_\<close> raise. The two agree exactly when the batch is 64 images of 784
  elements. The single-step cell (code cell 13) is the only one with \<^verbatim>\<open>resize_\<close>;
  every other cell that flattens a batch (cells 2, 3, 10 and 15) uses
  \<^verbatim>\<open>images.view(images.shape[0], -1)\<close>; the last code cell flattens one image with
  \<^verbatim>\<open>view(1, 784)\<close>, which raises when the image does not have 784 elements and never
  drops or invents one.
\<close>

theorem flattening_by_resize_and_by_view:
  assumes "shape images = n # dims" and "numel images = n * prod_list dims" and "0 < n"
    and "batches trainloader k = (images, labels) # rest"
  shows "forwarded (fst (training_pass_in f (with_tensors junk env) (images, labels) acc)) =
           [\<lparr>shape = [n, prod_list dims], storage = storage images\<rparr>] \<and>
         forwarded (fst (single_step (with_tensors junk env) trainloader k nb)) =
           [\<lparr>shape = [64, 784],
             storage = (if numel images < 50176
                        then storage images @ map junk [numel images..<50176]
                        else take 50176 (storage images))\<rparr>] \<and>
         (Resize [64, 784] images, None) \<in>
           set (fst (single_step (with_tensors junk env) trainloader k nb)) \<and>
         (Inr (resize junk [64, 784] images) = view_batch images) =
           (n = 64 \<and> prod_list dims = 784) \<and>
         map snd (filter (\<lambda>x. fst x \<notin> {13, 16}) flattenings) =
           [View_rows, View_rows, View_rows, View_rows] \<and>
         map snd (filter (\<lambda>x. fst x = 13) flattenings) = [Resize_to [64, 784]] \<and>
         map snd (filter (\<lambda>x. fst x = 16) flattenings) = [View_to [1, 784]] \<and>
         view [1, 784] img =
           (if numel img = 784 then Inr \<lparr>shape = [1, 784], storage = storage img\<rparr>
            else Inl ShapeError)"
proof -
  have v: "view_rows (with_tensors junk env) images =
      Inr \<lparr>shape = [n, prod_list dims], storage = storage images\<rparr>"
    using view_batch_images[OF assms(1-3)] by (simp add: with_tensors_def)
  have r: "resize_inplace (with_tensors junk env) [64, 784] images =
      Inr \<lparr>shape = [64, 784],
           storage = (if numel images < 50176
                      then storage images @ map junk [numel images..<50176]
                      else take 50176 (storage images))\<rparr>"
    using resize_images[of junk images] by (simp add: with_tensors_def)
  have i: "view [1, 784] img =
           (if numel img = 784 then Inr \<lparr>shape = [1, 784], storage = storage img\<rparr>
            else Inl ShapeError)"
    by (cases img) (simp add: view_def numel_def)
  show ?thesis
    unfolding training_pass_in_eq
    using forwarded_training_pass[OF v] forwarded_single_step[OF assms(4) r]
      resize_is_view[OF assms(1-3)] i
    by (simp add: flattenings_def)
qed

text \<open>
  On the last batch of an epoch, 32 images: the training pass keeps the 32 rows; the
  single-step cell would call the model on 64 rows, the last 32 of them the junk 7.
\<close>

theorem flattening_by_resize_and_by_view_witness:
  "forwarded (fst (training_pass_in Part_000 (with_tensors (\<lambda>i. 7) toy_tensors) last_batch (nb1, 0))) =
     [\<lparr>shape = [32, 784], storage = replicate 25088 0\<rparr>] \<and>
   forwarded (fst (single_step (with_tensors (\<lambda>i. 7) toy_tensors) last_batch_first 0 nb1)) =
     [\<lparr>shape = [64, 784], storage = replicate 25088 0 @ replicate 25088 7\<rparr>] \<and>
   Inr (resize (\<lambda>i. 7) [64, 784] (fst last_batch)) \<noteq> view_batch (fst last_batch)"
proof -
  have h1: "shape (fst last_batch) = 32 # [1, 28, 28]"
    by (simp add: last_batch_def)
  have h2: "numel (fst last_batch) = 32 * prod_list [1, 28, 28]"
    by (simp add: last_batch_def numel_def)
  have h3: "(0::nat) < 32"
    by simp
  have h4: "batches last_batch_first 0 = (fst last_batch, snd last_batch) # []"
    by (simp add: last_batch_first_def)
  have n: "numel (fst last_batch) = 25088"
    by (simp add: last_batch_def numel_def)
  have s: "storage (fst last_batch) = replicate 25088 0"
    by (simp add: last_batch_def)
  have "map (\<lambda>i. 7::int) [25088..<50176] = replicate (50176 - 25088) 7"
    by (simp only: map_replicate_const length_upt)
  then have j: "map (\<lambda>i. 7::int) [25088..<50176] = replicate 25088 7"
    by (simp del: upt_rec_numeral)
  note t = flattening_by_resize_and_by_view[OF h1 h2 h3 h4,
      of Part_000 "\<lambda>i. 7" toy_tensors "(nb1, 0)" nb1 "fst last_batch"]
  show ?thesis
    using t unfolding n j s by (simp del: upt_rec_numeral)
qed

subsection \<open>The order of the printed values\<close>

text \<open>
  Claim C1 says that the five values printed fall strictly from one epoch to the next.
  The training cell prints the mean it computed for each epoch and compares no two of
  them. Whether the five values fall is decided by what the framework's training does
  to the losses, in floating point, from randomly drawn initial weights and randomly
  shuffled batches; none of it is in the repository. Two facts can be stated. In the
  run recorded in each notebook the five values fall strictly. And a framework whose
  losses do not change from epoch to epoch makes the cell print the same value five
  times.
\<close>

lemma recorded_losses_decrease:
  "length (recorded_losses f) = 5 \<and> sorted_wrt (>) (recorded_losses f)"
  by (cases f) simp_all

lemma constant_losses_print_constant_means:
  "printed (fst (training_cell_in f toy two_batches)) = [2, 2, 2, 2, 2]"
proof -
  have "printed (fst (training_cell toy two_batches)) = [2, 2, 2, 2, 2]"
    by code_simp
  then show ?thesis by (simp add: training_cell_in_eq)
qed

end
